theory Spec2Isabelle
  imports Main
begin

section \<open>JavaScript numbers\<close>

text \<open>
  The quantities of this program (stock levels, BOM quantities, order quantities) are
  integers stored in INTEGER columns, far below \<open>2^53\<close>, where the arithmetic of
  JavaScript numbers is exact. A \<open>number\<close> is therefore an integer or one of the three
  special values that the modelled code can produce (\<open>Infinity\<close> seeds the minimum fold of
  \<open>calculateSellable\<close> and is what \<open>parseInt\<close> returns for a text beyond the largest
  double, \<open>NaN\<close> is what \<open>parseInt\<close> returns on failure).
\<close>

datatype number = Num int | PosInfinity | NegInfinity | NaN

text \<open>\<open>Math.min(a, b)\<close>: \<open>NaN\<close> is contagious, otherwise the smaller argument.\<close>

fun Math_min :: "number \<Rightarrow> number \<Rightarrow> number" where
  "Math_min NaN b = NaN"
| "Math_min a NaN = NaN"
| "Math_min NegInfinity b = NegInfinity"
| "Math_min a NegInfinity = NegInfinity"
| "Math_min PosInfinity b = b"
| "Math_min a PosInfinity = a"
| "Math_min (Num a) (Num b) = Num (min a b)"

text \<open>
  \<open>Math.floor(a / b)\<close> for integers \<open>a\<close> and \<open>b\<close>: floor division, and the IEEE results
  of a division by zero.
\<close>

definition floor_div :: "int \<Rightarrow> int \<Rightarrow> number" where
  "floor_div a b =
     (if b = 0 then (if 0 < a then PosInfinity else if a < 0 then NegInfinity else NaN)
      else Num (a div b))"

section \<open>Data model\<close>

text \<open>
  A row of the \<open>materials\<close> table (interface \<open>Material\<close>); the descriptive columns
  \<open>name\<close>, \<open>variant\<close>, \<open>sku\<close> and \<open>cost\<close> are never read by the operations modelled here.
  The field \<open>id\<close> is written \<open>m_id\<close>.
\<close>

record Material =
  m_id :: string
  on_hand :: int
  reorder_point :: int
  m_archived :: bool
  m_created_at :: nat

text \<open>One line of a bill of materials, \<open>{materialId, qty}\<close>.\<close>

record BOMItem =
  materialId :: string
  qty :: int

text \<open>A product; \<open>bom\<close> is an array or \<open>null\<close>.\<close>

record Product =
  p_id :: string
  p_sku :: string
  bom :: "BOMItem list option"
  p_archived :: bool

section \<open>Sellable quantity (src/lib/orderUtils.ts)\<close>

text \<open>
  \<open>calculateSellable(bom, materialsMap)\<close>: \<open>0\<close> for a missing or empty BOM, otherwise
  \<open>bom.reduce(..., Infinity)\<close>, whose callback returns \<open>0\<close> (dropping the accumulator)
  when the material is not in the map and \<open>Math.min(minSellable, possibleQty)\<close> otherwise.
\<close>

definition sellable_step :: "(string \<rightharpoonup> Material) \<Rightarrow> BOMItem \<Rightarrow> number \<Rightarrow> number" where
  "sellable_step materialsMap item minSellable =
     (case materialsMap (materialId item) of
        None \<Rightarrow> Num 0
      | Some material \<Rightarrow> Math_min minSellable (floor_div (on_hand material) (qty item)))"

definition calculateSellable :: "BOMItem list option \<Rightarrow> (string \<rightharpoonup> Material) \<Rightarrow> number" where
  "calculateSellable b materialsMap =
     (case b of
        None \<Rightarrow> Num 0
      | Some items \<Rightarrow>
          if items = [] then Num 0
          else fold (sellable_step materialsMap) items PosInfinity)"

text \<open>
  What the specification calls the contribution of one BOM line: \<open>floor(on_hand / qty)\<close>,
  and \<open>0\<close> for a material that is not in the lookup.
\<close>

definition line_sellable :: "(string \<rightharpoonup> Material) \<Rightarrow> BOMItem \<Rightarrow> int" where
  "line_sellable materialsMap item =
     (case materialsMap (materialId item) of
        None \<Rightarrow> 0
      | Some material \<Rightarrow> on_hand material div qty item)"

section \<open>Strings and the rendering of numbers\<close>

text \<open>
  A JavaScript string is a sequence of 16-bit code units. A \<open>string\<close> here is the list of
  the code units of a text whose code units are all below 256 (ASCII and Latin-1): one
  character per code unit, so that \<open>length\<close>, \<open>slice\<close> and \<open>replace\<close> count as the source
  does. The one character outside this range that the program itself writes, the em dash
  that the products page shows for a product without BOM, is written as its three UTF-8
  bytes; it is only ever produced and compared as a whole.
\<close>

definition em_dash :: string where
  "em_dash = [CHR 0xE2, CHR 0x80, CHR 0x94]"

text \<open>The position of the first occurrence of an element in a list.\<close>

fun position :: "'a \<Rightarrow> 'a list \<Rightarrow> nat option" where
  "position x [] = None"
| "position x (y # ys) = (if x = y then Some 0 else map_option Suc (position x ys))"

definition lower36 :: string where
  "lower36 = ''0123456789abcdefghijklmnopqrstuvwxyz''"

definition lower_letters :: string where
  "lower_letters = ''abcdefghijklmnopqrstuvwxyz''"

definition upper_letters :: string where
  "upper_letters = ''ABCDEFGHIJKLMNOPQRSTUVWXYZ''"

definition digit_char :: "nat \<Rightarrow> char" where
  "digit_char d = lower36 ! d"

text \<open>
  The digits of \<open>n\<close> in radix \<open>b\<close>, most significant first: their values, and the
  characters that \<open>Number.prototype.toString\<close> writes for them (lower case). The source
  calls \<open>toString()\<close> (radix 10) and \<open>toString(36)\<close> only; a radix below 2, which
  JavaScript rejects, gives the empty string here.
\<close>

function digit_values :: "nat \<Rightarrow> nat \<Rightarrow> nat list" where
  "digit_values b n =
     (if b < 2 then []
      else if n < b then [n]
      else digit_values b (n div b) @ [n mod b])"
  by pat_completeness auto
termination
  by (relation "measure snd") auto

declare digit_values.simps [simp del]

definition digits :: "nat \<Rightarrow> nat \<Rightarrow> string" where
  "digits b n = map digit_char (digit_values b n)"

definition Number_toString :: "number \<Rightarrow> nat \<Rightarrow> string" where
  "Number_toString x radix =
     (case x of
        Num n \<Rightarrow> if n < 0 then CHR ''-'' # digits radix (nat (- n)) else digits radix (nat n)
      | PosInfinity \<Rightarrow> ''Infinity''
      | NegInfinity \<Rightarrow> ''-Infinity''
      | NaN \<Rightarrow> ''NaN'')"

text \<open>
  \<open>String.prototype.toUpperCase\<close>, on the ASCII letters (the source applies it to the
  output of \<open>toString(36)\<close> only).
\<close>

definition upper_char :: "char \<Rightarrow> char" where
  "upper_char c = (case position c lower_letters of None \<Rightarrow> c | Some i \<Rightarrow> upper_letters ! i)"

definition toUpperCase :: "string \<Rightarrow> string" where
  "toUpperCase s = map upper_char s"

text \<open>\<open>s.padStart(n, c)\<close> with a one-character filler.\<close>

definition padStart :: "nat \<Rightarrow> char \<Rightarrow> string \<Rightarrow> string" where
  "padStart n c s = replicate (n - length s) c @ s"

text \<open>\<open>s.replace(/-/g, '')\<close> and \<open>s.slice(-n)\<close>.\<close>

definition replace_hyphens :: "string \<Rightarrow> string" where
  "replace_hyphens s = filter (\<lambda>c. c \<noteq> CHR ''-'') s"

definition slice_last :: "nat \<Rightarrow> string \<Rightarrow> string" where
  "slice_last n s = drop (length s - n) s"

subsection \<open>parseInt\<close>

text \<open>
  \<open>parseInt(string, radix)\<close> after ECMAScript: leading white space is skipped, a sign is
  read, a \<open>0x\<close> prefix is stripped when the radix is 16 or absent (absent is written
  \<open>0\<close>), the longest prefix of digits of the radix is converted, and the result is \<open>NaN\<close>
  when that prefix is empty or the radix is outside 2..36. The white space of ECMAScript
  with a code unit below 256 is TAB, LF, VT, FF, CR, SP and the no-break space U+00A0.
\<close>

definition is_space :: "char \<Rightarrow> bool" where
  "is_space c =
     (c \<in> set [CHR 0x09, CHR 0x0A, CHR 0x0B, CHR 0x0C, CHR 0x0D, CHR 0x20, CHR 0xA0])"

definition digit_value :: "char \<Rightarrow> nat option" where
  "digit_value c =
     (case position c lower36 of
        Some d \<Rightarrow> Some d
      | None \<Rightarrow> map_option (\<lambda>i. i + 10) (position c upper_letters))"

text \<open>The values of the longest prefix of digits of radix \<open>R\<close>.\<close>

fun radix_digits :: "nat \<Rightarrow> string \<Rightarrow> nat list" where
  "radix_digits R [] = []"
| "radix_digits R (c # cs) =
     (case digit_value c of
        None \<Rightarrow> []
      | Some d \<Rightarrow> if d < R then d # radix_digits R cs else [])"

definition radix_value :: "nat \<Rightarrow> nat list \<Rightarrow> nat" where
  "radix_value R ds = foldl (\<lambda>acc d. acc * R + d) 0 ds"

text \<open>
  The result of \<open>parseInt\<close> is a double: the integer that was read, rounded to the nearest
  number with a 53-bit significand (ties to the even significand), and \<open>Infinity\<close> beyond
  the largest double. \<open>ulp n\<close> is the spacing of the doubles at \<open>n\<close>: the least power of
  two \<open>u\<close> with \<open>n div u < 2^53\<close>. Integers below \<open>2^53\<close> are exact. (For more than 20
  significant decimal digits the standard allows an implementation to approximate
  further; this is the correctly rounded value.)
\<close>

function ulp :: "nat \<Rightarrow> nat" where
  "ulp n = (if n < 2 ^ 53 then 1 else 2 * ulp (n div 2))"
  by pat_completeness auto
termination
  by (relation "measure id") auto

declare ulp.simps [simp del]

definition to_Number :: "nat \<Rightarrow> number" where
  "to_Number n =
     (let u = ulp n;
          r = n mod u;
          lo = n - r;
          m = (if 2 * r < u then lo
               else if u < 2 * r then lo + u
               else if even (lo div u) then lo else lo + u)
      in if 2 ^ 1024 \<le> m then PosInfinity else Num (int m))"

text \<open>
  The sign applied to the number read. The negative zero of \<open>parseInt('-0')\<close> is the \<open>0\<close> of
  this model: both are falsy and both are written \<open>0\<close>.
\<close>

definition signed :: "int \<Rightarrow> number \<Rightarrow> number" where
  "signed sign x =
     (case x of
        Num n \<Rightarrow> Num (sign * n)
      | PosInfinity \<Rightarrow> if sign < 0 then NegInfinity else PosInfinity
      | NegInfinity \<Rightarrow> if sign < 0 then PosInfinity else NegInfinity
      | NaN \<Rightarrow> NaN)"

definition strip_sign :: "string \<Rightarrow> int \<times> string" where
  "strip_sign s =
     (case s of
        [] \<Rightarrow> (1, [])
      | c # cs \<Rightarrow> if c = CHR ''-'' then (- 1, cs) else if c = CHR ''+'' then (1, cs) else (1, s))"

definition has_hex_prefix :: "string \<Rightarrow> bool" where
  "has_hex_prefix s = (take 2 s = ''0x'' \<or> take 2 s = ''0X'')"

definition parseInt :: "string \<Rightarrow> nat \<Rightarrow> number" where
  "parseInt inputString radix =
     (let (sign, S) = strip_sign (dropWhile is_space inputString) in
      if radix \<noteq> 0 \<and> (radix < 2 \<or> 36 < radix) then NaN
      else
        let stripPrefix = (radix = 0 \<or> radix = 16);
            R0 = (if radix = 0 then 10 else radix);
            R = (if stripPrefix \<and> has_hex_prefix S then 16 else R0);
            S' = (if stripPrefix \<and> has_hex_prefix S then drop 2 S else S);
            Z = radix_digits R S'
        in if Z = [] then NaN else signed sign (to_Number (radix_value R Z)))"

text \<open>
  The value of \<open>a || b\<close> for numbers: \<open>b\<close> when \<open>a\<close> is \<open>NaN\<close> or zero, otherwise \<open>a\<close>
  (also when \<open>a\<close> is negative or infinite).
\<close>

definition or_default :: "number \<Rightarrow> number \<Rightarrow> number" where
  "or_default a b = (if a = NaN \<or> a = Num 0 then b else a)"

section \<open>Products page: rendering the sellable quantity\<close>

text \<open>
  \<open>getSellableQuantity(product)\<close>: the dash for a product whose BOM is \<open>null\<close> or empty,
  otherwise \<open>calculateSellable(product.bom, materialsMap).toString()\<close>.
\<close>

definition getSellableQuantity :: "Product \<Rightarrow> (string \<rightharpoonup> Material) \<Rightarrow> string" where
  "getSellableQuantity product materialsMap =
     (case bom product of
        None \<Rightarrow> em_dash
      | Some items \<Rightarrow>
          if items = [] then em_dash
          else Number_toString (calculateSellable (Some items) materialsMap) 10)"

section \<open>Order code generator (src/lib/orderUtils.ts)\<close>

text \<open>
  Errors that the modelled code raises or receives: the \<open>TypeError\<close> of a method call on
  \<open>undefined\<close>, and an error object returned by a write to the database.
\<close>

datatype js_error = TypeError | PersistenceError

text \<open>
  \<open>generateOrderCode(orderId)\<close>. The year of \<open>new Date().getFullYear()\<close> is the parameter
  \<open>fullYear\<close>. The argument is \<open>None\<close> when the caller passes none (the parameter is then
  \<open>undefined\<close>, and \<open>orderId.replace\<close> raises a \<open>TypeError\<close>).
\<close>

definition generateOrderCode :: "nat \<Rightarrow> string option \<Rightarrow> js_error + string" where
  "generateOrderCode fullYear orderId =
     (let year = fullYear mod 100;
          yearStr = padStart 2 (CHR ''0'') (Number_toString (Num (int year)) 10)
      in case orderId of
           None \<Rightarrow> Inl TypeError
         | Some oid \<Rightarrow>
             let uuidHex = slice_last 8 (replace_hyphens oid);
                 number = parseInt uuidHex 16;
                 base36 = toUpperCase (Number_toString number 36)
             in Inr (yearStr @ ''-'' @ base36))"

text \<open>
  The words of the specification: the two least-significant decimal digits of the year,
  the value of a string of hexadecimal digits, and what reading a text as a hexadecimal
  integer finds in it: the longest run of hexadecimal digits at its start, after optional
  white space, a plus sign and a \<open>0x\<close> prefix (a text without hyphen has no minus sign).
\<close>

definition year_digits :: "nat \<Rightarrow> string" where
  "year_digits y = [digit_char (y div 10 mod 10), digit_char (y mod 10)]"

definition hex_chars :: string where
  "hex_chars = ''0123456789abcdefABCDEF''"

definition hex_digit_value :: "char \<Rightarrow> nat" where
  "hex_digit_value c =
     (case position c ''0123456789abcdef'' of
        Some d \<Rightarrow> d
      | None \<Rightarrow> (case position c ''ABCDEF'' of Some d \<Rightarrow> d + 10 | None \<Rightarrow> 0))"

fun hex_value :: "string \<Rightarrow> nat" where
  "hex_value [] = 0"
| "hex_value (c # cs) = hex_digit_value c * 16 ^ length cs + hex_value cs"

definition strip_plus :: "string \<Rightarrow> string" where
  "strip_plus s = (case s of [] \<Rightarrow> [] | c # cs \<Rightarrow> if c = CHR ''+'' then cs else s)"

definition strip_0x :: "string \<Rightarrow> string" where
  "strip_0x s = (if take 2 s = ''0x'' \<or> take 2 s = ''0X'' then drop 2 s else s)"

definition hex_run :: "string \<Rightarrow> string" where
  "hex_run s =
     takeWhile (\<lambda>c. c \<in> set hex_chars) (strip_0x (strip_plus (dropWhile is_space s)))"

definition code_alphabet :: string where
  "code_alphabet = ''0123456789ABCDEFGHIJKLMNOPQRSTUVWXYZ''"

section \<open>CSV import: grouping of rows (integrations page, handleFileUpload)\<close>

text \<open>
  A parsed CSV row. PapaParse is called with a header row and without dynamic typing, so
  every field of a row is a string (a row with missing or extra fields is a parse error,
  which aborts the import before the grouping). The fields \<open>external_id\<close>, \<open>channel\<close>,
  \<open>customer_name\<close>, \<open>sku\<close> and \<open>qty\<close> carry the prefix \<open>row_\<close>.
\<close>

record CSVRow =
  row_external_id :: string
  row_channel :: string
  row_customer_name :: string
  row_sku :: string
  row_qty :: string

text \<open>An element \<open>{sku, qty}\<close> of \<open>GroupedOrder.lines\<close>, and \<open>GroupedOrder\<close> itself.\<close>

record OrderDataLine =
  l_sku :: string
  l_qty :: number

record GroupedOrder =
  g_channel :: string
  g_external_id :: string
  g_customer_name :: string
  g_lines :: "OrderDataLine list"

text \<open>
  The \<open>continue\<close> guard of the loop: a row is skipped when \<open>external_id\<close>, \<open>channel\<close> or
  \<open>sku\<close> is the empty string.
\<close>

definition valid_row :: "CSVRow \<Rightarrow> bool" where
  "valid_row row = (row_external_id row \<noteq> [] \<and> row_channel row \<noteq> [] \<and> row_sku row \<noteq> [])"

text \<open>The key \<open>`${row.channel}-${row.external_id}`\<close>.\<close>

definition orderKey :: "CSVRow \<Rightarrow> string" where
  "orderKey row = row_channel row @ ''-'' @ row_external_id row"

text \<open>The pushed line: \<open>{sku: row.sku, qty: parseInt(row.qty?.toString()) || 1}\<close>.\<close>

definition line_of_row :: "CSVRow \<Rightarrow> OrderDataLine" where
  "line_of_row row = \<lparr>l_sku = row_sku row, l_qty = or_default (parseInt (row_qty row) 0) (Num 1)\<rparr>"

text \<open>
  The \<open>Map\<close> \<open>groupedOrders\<close> is an association list in insertion order, which is the
  order of \<open>groupedOrders.values()\<close>. One iteration of the loop: skip an invalid row;
  add a group with no lines under a new key; push the line to the group of the key.
\<close>

definition push_line :: "string \<Rightarrow> OrderDataLine \<Rightarrow> (string \<times> GroupedOrder) list
    \<Rightarrow> (string \<times> GroupedOrder) list" where
  "push_line k l groupedOrders =
     map (\<lambda>(k', order). if k' = k then (k', order\<lparr>g_lines := g_lines order @ [l]\<rparr>) else (k', order))
       groupedOrders"

definition group_row :: "CSVRow \<Rightarrow> (string \<times> GroupedOrder) list \<Rightarrow> (string \<times> GroupedOrder) list" where
  "group_row row groupedOrders =
     (if \<not> valid_row row then groupedOrders
      else
        let k = orderKey row;
            added = (if map_of groupedOrders k = None
                     then groupedOrders @
                          [(k, \<lparr>g_channel = row_channel row, g_external_id = row_external_id row,
                                g_customer_name = row_customer_name row, g_lines = []\<rparr>)]
                     else groupedOrders)
        in push_line k (line_of_row row) added)"

definition groupRows :: "CSVRow list \<Rightarrow> (string \<times> GroupedOrder) list" where
  "groupRows data = fold group_row data []"





section \<open>CSV import: creating the orders (integrations page, importOrders)\<close>

text \<open>
  Rows of the \<open>orders\<close> and \<open>order_lines\<close> tables. The fields \<open>id\<close>, \<open>code\<close>, \<open>channel\<close>,
  \<open>external_id\<close> and \<open>customer_name\<close> of an order carry the prefix \<open>o_\<close>, the fields of an
  order line the prefix \<open>ol_\<close>. A nullable column is an option.
\<close>

record Order =
  o_id :: string
  o_code :: "string option"
  o_channel :: string
  o_external_id :: "string option"
  o_customer_name :: "string option"
  status :: string
  carrier :: "string option"
  tracking :: "string option"

record OrderLine =
  ol_order_id :: string
  ol_product_id :: string
  ol_qty :: number

record Database =
  orders :: "Order list"
  order_lines :: "OrderLine list"
  products :: "Product list"

text \<open>An entry of \<open>newOrders\<close> and \<open>existingOrders\<close>, and the \<open>ImportResult\<close>.\<close>

record ImportEntry =
  e_code :: "string option"
  e_external_id :: string
  e_channel :: string

record ImportResult =
  success :: bool
  newOrders :: "ImportEntry list"
  existingOrders :: "ImportEntry list"
  errors :: "string list"

text \<open>
  What the backend answers to the writes of one group: whether the insert of the order and
  the insert of its lines succeed, the identifier the database gives the new order, and
  the text that \<open>`${error}`\<close> gives for the error object of a failed write. Reads are
  answered from the tables.
\<close>

record Backend =
  order_insert_ok :: bool
  lines_insert_ok :: bool
  new_order_id :: string
  write_error :: string

text \<open>\<open>.single()\<close>: the row when the query has exactly one, otherwise no data.\<close>

fun single :: "'a list \<Rightarrow> 'a option" where
  "single [x] = Some x"
| "single xs = None"

definition matches_order :: "GroupedOrder \<Rightarrow> Order \<Rightarrow> bool" where
  "matches_order orderData ord =
     (o_external_id ord = Some (g_external_id orderData) \<and> o_channel ord = g_channel orderData)"

definition find_existing :: "Database \<Rightarrow> GroupedOrder \<Rightarrow> Order option" where
  "find_existing db orderData = single (filter (matches_order orderData) (orders db))"

text \<open>The non-archived products whose SKU is among those of the lines.\<close>

definition find_products :: "Database \<Rightarrow> GroupedOrder \<Rightarrow> Product list" where
  "find_products db orderData =
     filter (\<lambda>p. p_sku p \<in> set (map l_sku (g_lines orderData)) \<and> \<not> p_archived p) (products db)"

text \<open>The order lines of the resolved SKUs (\<open>map\<close> to a line or \<open>null\<close>, then \<open>filter(Boolean)\<close>).\<close>

definition make_order_lines :: "string \<Rightarrow> Product list \<Rightarrow> OrderDataLine list \<Rightarrow> OrderLine list" where
  "make_order_lines oid ps ls =
     concat (map (\<lambda>line. case find (\<lambda>p. p_sku p = l_sku line) ps of
                            None \<Rightarrow> []
                          | Some product \<Rightarrow>
                              [\<lparr>ol_order_id = oid, ol_product_id = p_id product, ol_qty = l_qty line\<rparr>])
                  ls)"

text \<open>
  The text of an error in a message (\<open>`${error}`\<close>): name and message. The message of the
  \<open>TypeError\<close> is the one of V8 for \<open>orderId.replace\<close> with \<open>orderId\<close> undefined.
\<close>

definition error_text :: "Backend \<Rightarrow> js_error \<Rightarrow> string" where
  "error_text backend e =
     (case e of
        TypeError \<Rightarrow>
          ''TypeError: Cannot read properties of undefined (reading '' @ [CHR 0x27] @
          ''replace'' @ [CHR 0x27] @ '')''
      | PersistenceError \<Rightarrow> write_error backend)"

text \<open>
  The body of the \<open>try\<close> block for one group. Its result is the updated lists and tables,
  or the error thrown together with the tables as the writes before the throw left them.
  \<open>orderCode\<close> is the outcome of the call that generates the code.
\<close>

definition try_import :: "(js_error + string) \<Rightarrow> Backend \<Rightarrow> GroupedOrder \<Rightarrow> ImportResult \<times> Database
    \<Rightarrow> js_error \<times> Database + ImportResult \<times> Database" where
  "try_import orderCode backend orderData st =
     (let (res, db) = st in
      case find_existing db orderData of
        Some existingOrder \<Rightarrow>
          Inr (res\<lparr>existingOrders := existingOrders res @
                   [\<lparr>e_code = o_code existingOrder, e_external_id = g_external_id orderData,
                     e_channel = g_channel orderData\<rparr>]\<rparr>, db)
      | None \<Rightarrow>
          let ps = find_products db orderData in
          if ps = [] then
            Inr (res\<lparr>errors := errors res @ [''No products found for order '' @ g_external_id orderData]\<rparr>, db)
          else
            case orderCode of
              Inl e \<Rightarrow> Inl (e, db)
            | Inr c \<Rightarrow>
                if \<not> order_insert_ok backend then Inl (PersistenceError, db)
                else
                  let ord = \<lparr>o_id = new_order_id backend, o_code = Some c,
                             o_channel = g_channel orderData,
                             o_external_id = Some (g_external_id orderData),
                             o_customer_name = Some (g_customer_name orderData),
                             status = ''PENDING'', carrier = None, tracking = None\<rparr>;
                      db1 = db\<lparr>orders := orders db @ [ord]\<rparr>;
                      orderLines = make_order_lines (o_id ord) ps (g_lines orderData)
                  in if orderLines \<noteq> [] \<and> \<not> lines_insert_ok backend then Inl (PersistenceError, db1)
                     else
                       Inr (res\<lparr>newOrders := newOrders res @
                                [\<lparr>e_code = Some c, e_external_id = g_external_id orderData,
                                  e_channel = g_channel orderData\<rparr>]\<rparr>,
                            db1\<lparr>order_lines := order_lines db1 @ orderLines\<rparr>))"

text \<open>One iteration of the loop of \<open>importOrders\<close>: the \<open>try\<close> block and its \<open>catch\<close>.\<close>

definition import_one :: "(js_error + string) \<Rightarrow> (GroupedOrder \<Rightarrow> Backend) \<Rightarrow> GroupedOrder
    \<Rightarrow> ImportResult \<times> Database \<Rightarrow> ImportResult \<times> Database" where
  "import_one orderCode backend orderData st =
     (case try_import orderCode (backend orderData) orderData st of
        Inr st' \<Rightarrow> st'
      | Inl (e, db') \<Rightarrow>
          ((fst st)\<lparr>errors := errors (fst st) @
              [''Failed to import order '' @ g_external_id orderData @ '': '' @ error_text (backend orderData) e]\<rparr>, db'))"

text \<open>
  \<open>importOrders(orders)\<close>: the loop over the groups, then the summary. The code is
  generated by \<open>generateOrderCode()\<close>, called without an argument.
\<close>

definition importOrders :: "nat \<Rightarrow> (GroupedOrder \<Rightarrow> Backend) \<Rightarrow> Database \<Rightarrow> GroupedOrder list
    \<Rightarrow> ImportResult \<times> Database" where
  "importOrders fullYear backend db ordersData =
     (let (res, db') =
            fold (import_one (generateOrderCode fullYear None) backend) ordersData
              (\<lparr>success = True, newOrders = [], existingOrders = [], errors = []\<rparr>, db)
      in (res\<lparr>success := (errors res = [])\<rparr>, db'))"

text \<open>
  The unique index \<open>idx_orders_channel_external_id\<close> of the schema: no two orders with an
  external identifier share channel and external identifier.
\<close>

definition unique_channel_external_id :: "Order list \<Rightarrow> bool" where
  "unique_channel_external_id os =
     distinct (map (\<lambda>ord. (o_channel ord, o_external_id ord))
                 (filter (\<lambda>ord. o_external_id ord \<noteq> None) os))"

text \<open>
  The entry that \<open>importOrders\<close> records for a group that is already stored: the code of
  the stored order, and the external identifier and channel of the group.
\<close>

definition existing_entry :: "Database \<Rightarrow> GroupedOrder \<Rightarrow> ImportEntry" where
  "existing_entry db orderData =
     \<lparr>e_code = (case find_existing db orderData of None \<Rightarrow> None | Some ord \<Rightarrow> o_code ord),
      e_external_id = g_external_id orderData, e_channel = g_channel orderData\<rparr>"

section \<open>Order status update\<close>

text \<open>
  The object \<open>updateData\<close> sent to the database: the status, and the carrier and the
  tracking number when the argument is not \<open>undefined\<close> (\<open>None\<close> is an absent key).
\<close>

record UpdateData =
  u_status :: string
  u_carrier :: "string option"
  u_tracking :: "string option"

definition make_updateData :: "string \<Rightarrow> string option \<Rightarrow> string option \<Rightarrow> UpdateData" where
  "make_updateData st c t = \<lparr>u_status = st, u_carrier = c, u_tracking = t\<rparr>"

text \<open>An order with the keys of \<open>updateData\<close> written over its own (\<open>{...order, ...updateData}\<close>).\<close>

definition apply_patch :: "UpdateData \<Rightarrow> Order \<Rightarrow> Order" where
  "apply_patch u ord =
     ord\<lparr>status := u_status u,
         carrier := (case u_carrier u of None \<Rightarrow> carrier ord | Some c \<Rightarrow> Some c),
         tracking := (case u_tracking u of None \<Rightarrow> tracking ord | Some t \<Rightarrow> Some t)\<rparr>"

text \<open>\<open>supabase.from('orders').update(updateData).eq('id', orderId)\<close> on the table.\<close>

definition db_update_order :: "string \<Rightarrow> UpdateData \<Rightarrow> Order list \<Rightarrow> Order list" where
  "db_update_order orderId u rows = map (\<lambda>r. if o_id r = orderId then apply_patch u r else r) rows"

text \<open>
  \<open>a || b\<close> where \<open>a\<close> is a string or \<open>undefined\<close> and \<open>b\<close> a string or \<open>null\<close>: \<open>b\<close> when \<open>a\<close>
  is \<open>undefined\<close> or the empty string.
\<close>

definition or_else :: "string option \<Rightarrow> string option \<Rightarrow> string option" where
  "or_else a b = (case a of None \<Rightarrow> b | Some s \<Rightarrow> if s = [] then b else Some s)"

datatype toast = ToastSuccess | ToastError

text \<open>
  \<open>updateOrderStatus(orderId, status, carrier?, tracking?)\<close> of the fulfillment page
  (src/app/fulfillment/page.tsx), a function that the page defines and never calls. The
  state is the displayed list \<open>orders\<close> and the table; \<open>write_ok\<close> tells whether the update
  reaches the database.
\<close>

definition fulfillment_updateOrderStatus ::
    "bool \<Rightarrow> string \<Rightarrow> string \<Rightarrow> string option \<Rightarrow> string option \<Rightarrow> Order list \<times> Order list
      \<Rightarrow> (Order list \<times> Order list) \<times> toast" where
  "fulfillment_updateOrderStatus write_ok orderId st c t state =
     (let (shown, rows) = state;
          updateData = make_updateData st c t
      in if \<not> write_ok then ((shown, rows), ToastError)
         else
           ((map (\<lambda>ord. if o_id ord = orderId
                         then ord\<lparr>status := st, carrier := or_else c (carrier ord),
                                  tracking := or_else t (tracking ord)\<rparr>
                         else ord) shown,
             db_update_order orderId updateData rows), ToastSuccess))"

text \<open>
  \<open>updateOrderStatus(status, newCarrier?, newTracking?)\<close> of the order page
  (src/app/order/[id]/page.tsx). The state is the displayed \<open>order\<close> (or \<open>null\<close>) and the
  table; nothing happens without a displayed order.
\<close>

definition order_page_updateOrderStatus ::
    "bool \<Rightarrow> string \<Rightarrow> string option \<Rightarrow> string option \<Rightarrow> Order option \<times> Order list
      \<Rightarrow> (Order option \<times> Order list) \<times> toast option" where
  "order_page_updateOrderStatus write_ok st newCarrier newTracking state =
     (let (shown, rows) = state in
      case shown of
        None \<Rightarrow> (state, None)
      | Some ord \<Rightarrow>
          let updateData = make_updateData st newCarrier newTracking in
          if \<not> write_ok then (state, Some ToastError)
          else ((Some (apply_patch updateData ord), db_update_order (o_id ord) updateData rows),
                Some ToastSuccess))"

section \<open>Materials page: stock adjustments (src/app/fulfillment/page.tsx, MaterialsPage)\<close>

text \<open>
  The state of the page is the displayed list \<open>materials\<close>; \<open>stored\<close> is the table.
  \<open>loadMaterials\<close> replaces the displayed list by the non-archived rows, newest first.
\<close>

record MaterialsState =
  materials :: "Material list"
  stored :: "Material list"

definition select_materials :: "Material list \<Rightarrow> Material list" where
  "select_materials rows = rev (sort_key m_created_at (filter (\<lambda>m. \<not> m_archived m) rows))"

definition set_on_hand :: "string \<Rightarrow> int \<Rightarrow> Material list \<Rightarrow> Material list" where
  "set_on_hand mid newQuantity ms =
     map (\<lambda>material. if m_id material = mid then material\<lparr>on_hand := newQuantity\<rparr>
                      else material) ms"

text \<open>
  The answers of the backend to one call of \<open>updateQuantity\<close>: whether the update is
  written, and whether the reload after a failed write succeeds.
\<close>

record StockBackend =
  write_ok :: bool
  reload_ok :: bool

text \<open>
  \<open>updateQuantity(materialId, newQuantity)\<close>: change the displayed list at once, write the
  new quantity, and on a failed write reload the list (a failed reload leaves the list as
  it is).
\<close>

definition updateQuantity :: "StockBackend \<Rightarrow> string \<Rightarrow> int \<Rightarrow> MaterialsState \<Rightarrow> MaterialsState" where
  "updateQuantity backend mid newQuantity s =
     (let updatedMaterials = set_on_hand mid newQuantity (materials s) in
      if write_ok backend then
        \<lparr>materials = updatedMaterials, stored = set_on_hand mid newQuantity (stored s)\<rparr>
      else if reload_ok backend then
        \<lparr>materials = select_materials (stored s), stored = stored s\<rparr>
      else \<lparr>materials = updatedMaterials, stored = stored s\<rparr>)"

text \<open>
  The two buttons of a displayed material. The quantity the minus button asks for is
  \<open>Math.max(0, material.on_hand - 1)\<close>, and the button is disabled when
  \<open>material.on_hand <= 0\<close>; the plus button asks for \<open>material.on_hand + 1\<close>. A click
  names the row of the displayed list.
\<close>

definition decrement_target :: "int \<Rightarrow> int" where
  "decrement_target h = max 0 (h - 1)"

datatype click = Minus nat | Plus nat

fun do_click :: "StockBackend \<Rightarrow> click \<Rightarrow> MaterialsState \<Rightarrow> MaterialsState" where
  "do_click backend (Minus i) s =
     (if i < length (materials s) then
        let material = materials s ! i in
        if on_hand material \<le> 0 then s
        else updateQuantity backend (m_id material) (decrement_target (on_hand material)) s
      else s)"
| "do_click backend (Plus i) s =
     (if i < length (materials s) then
        let material = materials s ! i in
        updateQuantity backend (m_id material) (on_hand material + 1) s
      else s)"

fun do_clicks :: "(click \<times> StockBackend) list \<Rightarrow> MaterialsState \<Rightarrow> MaterialsState" where
  "do_clicks [] s = s"
| "do_clicks ((c, backend) # cs) s = do_clicks cs (do_click backend c s)"

text \<open>Every displayed and stored row of the material \<open>x\<close> has a non-negative quantity.\<close>

definition stock_nonneg :: "string \<Rightarrow> MaterialsState \<Rightarrow> bool" where
  "stock_nonneg x s =
     (list_all (\<lambda>m. m_id m = x \<longrightarrow> 0 \<le> on_hand m) (materials s) \<and>
      list_all (\<lambda>m. m_id m = x \<longrightarrow> 0 \<le> on_hand m) (stored s))"

section \<open>Rendering of numbers: evaluation rules\<close>

lemma digit_values_small: "2 \<le> b \<Longrightarrow> n < b \<Longrightarrow> digit_values b n = [n]"
  by (subst digit_values.simps) simp

lemma digit_values_step:
  "2 \<le> b \<Longrightarrow> b \<le> n \<Longrightarrow> digit_values b n = digit_values b (n div b) @ [n mod b]"
  by (subst digit_values.simps) simp

lemma digits_small: "2 \<le> b \<Longrightarrow> n < b \<Longrightarrow> digits b n = [digit_char n]"
  by (simp add: digits_def digit_values_small)

lemma digits_step:
  "2 \<le> b \<Longrightarrow> b \<le> n \<Longrightarrow> digits b n = digits b (n div b) @ [digit_char (n mod b)]"
  by (simp add: digits_def digit_values_step)

section \<open>Properties of the sellable quantity\<close>

lemma sellable_step_Num:
  assumes "1 \<le> qty item" and "\<forall>mat \<in> ran m. 0 \<le> on_hand mat" and "0 \<le> a"
  shows "sellable_step m item (Num a) = Num (min a (line_sellable m item))"
proof (cases "m (materialId item)")
  case None
  with assms(3) show ?thesis
    by (simp add: sellable_step_def line_sellable_def)
next
  case (Some mat)
  with assms(1) show ?thesis
    by (simp add: sellable_step_def line_sellable_def floor_div_def)
qed

lemma sellable_step_PosInfinity:
  assumes "1 \<le> qty item"
  shows "sellable_step m item PosInfinity = Num (line_sellable m item)"
  using assms
  by (cases "m (materialId item)") (simp_all add: sellable_step_def line_sellable_def floor_div_def)

lemma line_sellable_nonneg:
  assumes "1 \<le> qty item" and "\<forall>mat \<in> ran m. 0 \<le> on_hand mat"
  shows "0 \<le> line_sellable m item"
proof (cases "m (materialId item)")
  case None
  then show ?thesis by (simp add: line_sellable_def)
next
  case (Some mat)
  then have "mat \<in> ran m" by (auto simp: ran_def)
  with assms Some show ?thesis
    by (simp add: line_sellable_def pos_imp_zdiv_nonneg_iff)
qed

lemma fold_sellable_step_Num:
  assumes "\<forall>i \<in> set items. 1 \<le> qty i" and "\<forall>mat \<in> ran m. 0 \<le> on_hand mat" and "0 \<le> a"
  shows "fold (sellable_step m) items (Num a) = Num (Min (insert a (line_sellable m ` set items)))"
  using assms
proof (induction items arbitrary: a)
  case Nil
  then show ?case by simp
next
  case (Cons i items)
  have q: "1 \<le> qty i" using Cons.prems(1) by simp
  have nn: "0 \<le> min a (line_sellable m i)"
    using Cons.prems(3) line_sellable_nonneg [OF q Cons.prems(2)] by simp
  have "fold (sellable_step m) (i # items) (Num a)
        = fold (sellable_step m) items (Num (min a (line_sellable m i)))"
    by (simp add: sellable_step_Num [OF q Cons.prems(2) Cons.prems(3)])
  also have "\<dots> = Num (Min (insert (min a (line_sellable m i)) (line_sellable m ` set items)))"
    using Cons.IH [OF _ Cons.prems(2) nn] Cons.prems(1) by simp
  also have "Min (insert (min a (line_sellable m i)) (line_sellable m ` set items))
             = Min (insert a (line_sellable m ` set (i # items)))"
  proof (cases "items = []")
    case True
    then show ?thesis by (simp add: min.commute)
  next
    case False
    then have ne: "line_sellable m ` set items \<noteq> {}" by simp
    have fin: "finite (line_sellable m ` set items)" by simp
    show ?thesis
      using ne fin by (simp add: min.assoc)
  qed
  finally show ?case .
qed

lemma fold_sellable_step_nonempty:
  assumes "items \<noteq> []" and "\<forall>i \<in> set items. 1 \<le> qty i"
    and "\<forall>mat \<in> ran m. 0 \<le> on_hand mat"
  shows "fold (sellable_step m) items PosInfinity = Num (Min (line_sellable m ` set items))"
proof -
  from assms(1) obtain i rest where items: "items = i # rest" by (cases items) auto
  have q: "1 \<le> qty i" using assms(2) items by simp
  have nn: "0 \<le> line_sellable m i" by (rule line_sellable_nonneg [OF q assms(3)])
  have "fold (sellable_step m) items PosInfinity = fold (sellable_step m) rest (Num (line_sellable m i))"
    by (simp add: items sellable_step_PosInfinity [OF q])
  also have "\<dots> = Num (Min (insert (line_sellable m i) (line_sellable m ` set rest)))"
    using fold_sellable_step_Num [OF _ assms(3) nn, of rest] assms(2) items by simp
  finally show ?thesis by (simp add: items)
qed


text \<open>
  C1. For a non-empty BOM whose quantities are at least 1 and a lookup of on-hand
  quantities, which the data model has as integers that are never negative,
  \<open>calculateSellable\<close> returns the minimum over the BOM lines of \<open>floor(on_hand / qty)\<close>,
  a line whose material is absent counting 0.
\<close>

theorem calculateSellable_min:
  assumes "items \<noteq> []" and "\<forall>i \<in> set items. 1 \<le> qty i"
    and "\<forall>mat \<in> ran materialsMap. 0 \<le> on_hand mat"
  shows "calculateSellable (Some items) materialsMap
         = Num (Min (line_sellable materialsMap ` set items))"
  using assms by (simp add: calculateSellable_def fold_sellable_step_nonempty)

text \<open>
  The example of the specification: BOM \<open>[{m1, 2}, {m2, 5}]\<close> with 10 of \<open>m1\<close> and 12 of
  \<open>m2\<close> on hand gives \<open>min(5, 2) = 2\<close>.
\<close>

theorem calculateSellable_min_witness:
  "calculateSellable (Some [\<lparr>materialId = ''m1'', qty = 2\<rparr>, \<lparr>materialId = ''m2'', qty = 5\<rparr>])
     [''m1'' \<mapsto> \<lparr>m_id = ''m1'', on_hand = 10, reorder_point = 0, m_archived = False, m_created_at = 0\<rparr>,
      ''m2'' \<mapsto> \<lparr>m_id = ''m2'', on_hand = 12, reorder_point = 0, m_archived = False, m_created_at = 0\<rparr>]
   = Num 2"
  using calculateSellable_min [of "[\<lparr>materialId = ''m1'', qty = 2\<rparr>, \<lparr>materialId = ''m2'', qty = 5\<rparr>]"
      "[''m1'' \<mapsto> \<lparr>m_id = ''m1'', on_hand = 10, reorder_point = 0, m_archived = False, m_created_at = 0\<rparr>,
        ''m2'' \<mapsto> \<lparr>m_id = ''m2'', on_hand = 12, reorder_point = 0, m_archived = False, m_created_at = 0\<rparr>]"]
  by (simp add: line_sellable_def)

text \<open>
  When every material of the BOM is in the lookup, the minimum is returned whatever the
  sign of the quantities on hand.
\<close>

lemma sellable_step_present:
  assumes "1 \<le> qty item" and "materialId item \<in> dom m"
  shows "sellable_step m item (Num a) = Num (min a (line_sellable m item))"
  using assms by (auto simp: sellable_step_def line_sellable_def floor_div_def)

lemma fold_sellable_step_present:
  assumes "\<forall>i \<in> set items. 1 \<le> qty i \<and> materialId i \<in> dom m"
  shows "fold (sellable_step m) items (Num a) = Num (Min (insert a (line_sellable m ` set items)))"
  using assms
proof (induction items arbitrary: a)
  case Nil
  then show ?case by simp
next
  case (Cons i items)
  have "fold (sellable_step m) (i # items) (Num a)
        = fold (sellable_step m) items (Num (min a (line_sellable m i)))"
    using Cons.prems by (simp add: sellable_step_present)
  also have "\<dots> = Num (Min (insert (min a (line_sellable m i)) (line_sellable m ` set items)))"
    using Cons.IH Cons.prems by simp
  also have "Min (insert (min a (line_sellable m i)) (line_sellable m ` set items))
             = Min (insert a (line_sellable m ` set (i # items)))"
  proof (cases "items = []")
    case True
    then show ?thesis by (simp add: min.commute)
  next
    case False
    then have "line_sellable m ` set items \<noteq> {}" by simp
    moreover have "finite (line_sellable m ` set items)" by simp
    ultimately show ?thesis by (simp add: min.assoc)
  qed
  finally show ?case .
qed

lemma calculateSellable_min_all_present:
  assumes "items \<noteq> []" and "\<forall>i \<in> set items. 1 \<le> qty i \<and> materialId i \<in> dom m"
  shows "calculateSellable (Some items) m = Num (Min (line_sellable m ` set items))"
proof -
  from assms(1) obtain i rest where items: "items = i # rest" by (cases items) auto
  have q: "1 \<le> qty i" using assms(2) items by simp
  have "fold (sellable_step m) items PosInfinity
        = fold (sellable_step m) rest (Num (line_sellable m i))"
    by (simp add: items sellable_step_PosInfinity [OF q])
  also have "\<dots> = Num (Min (insert (line_sellable m i) (line_sellable m ` set rest)))"
    using fold_sellable_step_present [of rest m] assms(2) items by simp
  finally show ?thesis using assms(1) by (simp add: calculateSellable_def items)
qed

text \<open>
  C2 (as amended). \<open>calculateSellable\<close> returns the number 0 for an absent and for an empty
  BOM, whatever the lookup; it is the caller \<open>getSellableQuantity\<close> that tests for an absent
  or empty BOM itself and renders the dash, which is not the text \<open>0\<close>.
\<close>

theorem calculateSellable_empty_bom:
  "calculateSellable None materialsMap = Num 0
   \<and> calculateSellable (Some []) materialsMap = Num 0
   \<and> getSellableQuantity (product\<lparr>bom := None\<rparr>) materialsMap = em_dash
   \<and> getSellableQuantity (product\<lparr>bom := Some []\<rparr>) materialsMap = em_dash
   \<and> em_dash \<noteq> Number_toString (Num 0) 10"
  by (simp add: calculateSellable_def getSellableQuantity_def em_dash_def Number_toString_def
      digits_small digit_char_def lower36_def)

text \<open>
  C2 as stated fails: the value returned for an empty BOM is the number 0 itself, not a
  value distinct from 0.
\<close>

theorem calculateSellable_empty_bom_counterexample:
  "\<not> calculateSellable (Some []) Map.empty \<noteq> Num 0"
  by (simp add: calculateSellable_def)

text \<open>
  C10. For a BOM whose quantities are at least 1 and a lookup whose on-hand quantities are
  non-negative, \<open>calculateSellable\<close> returns a non-negative integer; in particular the
  \<open>Infinity\<close> that seeds the fold is never the result. This holds for an absent or empty
  BOM as well.
\<close>

theorem calculateSellable_finite_nonneg:
  assumes "\<forall>i \<in> set items. 1 \<le> qty i"
    and "\<forall>mat \<in> ran materialsMap. 0 \<le> on_hand mat"
  shows "(\<exists>n. 0 \<le> n \<and> calculateSellable (Some items) materialsMap = Num n)
         \<and> calculateSellable (Some items) materialsMap \<noteq> PosInfinity
         \<and> calculateSellable None materialsMap = Num 0"
proof (cases "items = []")
  case True
  then show ?thesis by (simp add: calculateSellable_def)
next
  case False
  have eq: "calculateSellable (Some items) materialsMap
            = Num (Min (line_sellable materialsMap ` set items))"
    using False assms by (simp add: calculateSellable_def fold_sellable_step_nonempty)
  have "\<forall>v \<in> line_sellable materialsMap ` set items. 0 \<le> v"
    using assms line_sellable_nonneg by auto
  then have "0 \<le> Min (line_sellable materialsMap ` set items)"
    using False by simp
  with eq show ?thesis by (simp add: calculateSellable_def)
qed

text \<open>A BOM of one line, 3 of material \<open>X\<close> per unit, with 10 on hand: 3 units.\<close>

theorem calculateSellable_finite_nonneg_witness:
  "calculateSellable (Some [\<lparr>materialId = ''X'', qty = 3\<rparr>])
     [''X'' \<mapsto> \<lparr>m_id = ''X'', on_hand = 10, reorder_point = 0, m_archived = False, m_created_at = 0\<rparr>]
   = Num 3
   \<and> calculateSellable (Some [\<lparr>materialId = ''X'', qty = 3\<rparr>])
        [''X'' \<mapsto> \<lparr>m_id = ''X'', on_hand = 10, reorder_point = 0, m_archived = False, m_created_at = 0\<rparr>]
      \<noteq> PosInfinity"
  using calculateSellable_finite_nonneg [of "[\<lparr>materialId = ''X'', qty = 3\<rparr>]"
      "[''X'' \<mapsto> \<lparr>m_id = ''X'', on_hand = 10, reorder_point = 0, m_archived = False, m_created_at = 0\<rparr>]"]
  by (simp add: calculateSellable_def sellable_step_def floor_div_def)

section \<open>Properties of the order code generator\<close>


lemma position_nth: "distinct xs \<Longrightarrow> i < length xs \<Longrightarrow> position (xs ! i) xs = Some i"
proof (induction xs arbitrary: i)
  case Nil
  then show ?case by simp
next
  case (Cons x xs)
  show ?case
  proof (cases i)
    case 0
    then show ?thesis by simp
  next
    case (Suc j)
    with Cons.prems have "xs ! j \<in> set xs" "x \<notin> set xs" by auto
    then have "xs ! j \<noteq> x" by auto
    with Cons Suc show ?thesis by simp
  qed
qed

lemma mod_100_split: "(y::nat) mod 100 = 10 * (y div 10 mod 10) + y mod 10"
  using mod_mult2_eq [of y 10 10] by simp

lemma year_part: "padStart 2 (CHR ''0'') (Number_toString (Num (int (y mod 100))) 10) = year_digits y"
proof -
  define k where "k = y mod 100"
  have k100: "k < 100" by (simp add: k_def)
  have tens: "y div 10 mod 10 = k div 10" by (simp add: k_def mod_100_split)
  have units: "y mod 10 = k mod 10" by (simp add: k_def mod_100_split)
  have yd: "year_digits y = [digit_char (k div 10), digit_char (k mod 10)]"
    by (simp only: year_digits_def tens units)
  have ts: "Number_toString (Num (int k)) 10 = digits 10 k"
    by (simp add: Number_toString_def)
  have "padStart 2 (CHR ''0'') (digits 10 k) = [digit_char (k div 10), digit_char (k mod 10)]"
  proof (cases "k < 10")
    case True
    then have "digits 10 k = [digit_char k]" by (simp add: digits_small)
    moreover have "digit_char 0 = CHR ''0''" by (simp add: digit_char_def lower36_def)
    ultimately show ?thesis using True by (simp add: padStart_def)
  next
    case False
    then have "digits 10 k = digits 10 (k div 10) @ [digit_char (k mod 10)]"
      by (simp add: digits_step)
    moreover have "k div 10 < 10" using k100 by simp
    then have "digits 10 (k div 10) = [digit_char (k div 10)]" by (simp add: digits_small)
    ultimately show ?thesis by (simp add: padStart_def)
  qed
  with yd ts show ?thesis by (simp only: k_def)
qed

lemma digit_values_bound: "2 \<le> b \<Longrightarrow> \<forall>d \<in> set (digit_values b n). d < b"
proof (induction b n rule: digit_values.induct)
  case (1 b n)
  show ?case
  proof (cases "n < b")
    case True
    with "1.prems" show ?thesis by (simp add: digit_values_small)
  next
    case False
    with "1.prems" have "digit_values b n = digit_values b (n div b) @ [n mod b]"
      by (simp add: digit_values_step)
    moreover have "\<forall>d \<in> set (digit_values b (n div b)). d < b"
      using "1.IH" "1.prems" False by simp
    moreover have "n mod b < b" using "1.prems" by simp
    ultimately show ?thesis by auto
  qed
qed

lemma digit_values_nonempty: "2 \<le> b \<Longrightarrow> digit_values b n \<noteq> []"
  by (subst digit_values.simps) simp

lemma radix_value_append: "radix_value R (ds @ [d]) = radix_value R ds * R + d"
  by (simp add: radix_value_def)

lemma radix_value_digit_values: "2 \<le> b \<Longrightarrow> radix_value b (digit_values b n) = n"
proof (induction b n rule: digit_values.induct)
  case (1 b n)
  show ?case
  proof (cases "n < b")
    case True
    with "1.prems" show ?thesis by (simp add: digit_values_small radix_value_def)
  next
    case False
    with "1.prems" have "digit_values b n = digit_values b (n div b) @ [n mod b]"
      by (simp add: digit_values_step)
    moreover have "radix_value b (digit_values b (n div b)) = n div b"
      using "1.IH" "1.prems" False by simp
    ultimately show ?thesis by (simp add: radix_value_append)
  qed
qed



lemma upper_lower36: "map upper_char lower36 = code_alphabet"
  by (simp add: lower36_def upper_char_def lower_letters_def upper_letters_def code_alphabet_def)

lemma digit_value_code_alphabet:
  "map digit_value code_alphabet = map (\<lambda>c. position c code_alphabet) code_alphabet"
  by (simp add: code_alphabet_def digit_value_def lower36_def upper_letters_def)

lemma distinct_code_alphabet: "distinct code_alphabet"
  by (simp add: code_alphabet_def)

lemma length_code_alphabet: "length code_alphabet = 36"
  by (simp add: code_alphabet_def)

lemma upper_digit_char: "d < 36 \<Longrightarrow> upper_char (digit_char d) = code_alphabet ! d"
proof -
  assume d: "d < 36"
  have "length lower36 = 36" by (simp add: lower36_def)
  with d have "map upper_char lower36 ! d = upper_char (lower36 ! d)" by simp
  then show ?thesis by (simp add: upper_lower36 digit_char_def)
qed

lemma digit_value_upper: "d < 36 \<Longrightarrow> digit_value (upper_char (digit_char d)) = Some d"
proof -
  assume d: "d < 36"
  then have "digit_value (code_alphabet ! d) = map digit_value code_alphabet ! d"
    by (simp add: length_code_alphabet)
  also have "\<dots> = map (\<lambda>c. position c code_alphabet) code_alphabet ! d"
    by (simp only: digit_value_code_alphabet)
  also have "\<dots> = position (code_alphabet ! d) code_alphabet"
    using d by (simp add: length_code_alphabet)
  also have "\<dots> = Some d"
    using d by (simp add: position_nth distinct_code_alphabet length_code_alphabet)
  finally show ?thesis using d by (simp add: upper_digit_char)
qed

lemma code_alphabet_plain:
  "\<forall>c \<in> set code_alphabet. \<not> is_space c \<and> c \<noteq> CHR ''-'' \<and> c \<noteq> CHR ''+''"
  by (simp add: code_alphabet_def is_space_def)

lemma hex_chars_digit:
  "\<forall>c \<in> set hex_chars. digit_value c = Some (hex_digit_value c) \<and> hex_digit_value c < 16
      \<and> \<not> is_space c \<and> c \<noteq> CHR ''-'' \<and> c \<noteq> CHR ''+'' \<and> c \<noteq> CHR ''x'' \<and> c \<noteq> CHR ''X''"
  by (simp add: hex_chars_def digit_value_def hex_digit_value_def lower36_def upper_letters_def
      is_space_def)


lemma position_Some: "position x xs = Some i \<Longrightarrow> i < length xs \<and> xs ! i = x"
  by (induction xs arbitrary: i) (auto split: if_splits)

lemma nth_in_take: "i < n \<Longrightarrow> i < length xs \<Longrightarrow> xs ! i \<in> set (take n xs)"
proof -
  assume a: "i < n" "i < length xs"
  then have "take n xs ! i = xs ! i" and "i < length (take n xs)" by simp_all
  then show ?thesis by (metis nth_mem)
qed

lemma ulp_small: "n < 2 ^ 53 \<Longrightarrow> ulp n = 1"
  by (subst ulp.simps) simp

lemma ulp_step: "2 ^ 53 \<le> n \<Longrightarrow> ulp n = 2 * ulp (n div 2)"
  by (subst ulp.simps) simp

text \<open>
  Beyond \<open>2^53\<close> the number read is rounded: \<open>2^53 + 1\<close> lies halfway between two doubles
  and becomes \<open>2^53\<close>, whose significand is even.
\<close>

lemma parseInt_rounds_to_double:
  "parseInt ''9007199254740993'' 0 = Num 9007199254740992"
  by (simp add: parseInt_def strip_sign_def has_hex_prefix_def digit_value_def lower36_def
      radix_value_def is_space_def Let_def to_Number_def ulp_small ulp_step signed_def)

lemma to_Number_exact: "n < 2 ^ 53 \<Longrightarrow> to_Number n = Num (int n)"
proof -
  assume n: "n < 2 ^ 53"
  have u: "ulp n = 1" using n by (subst ulp.simps) simp
  have "(2::nat) ^ 53 \<le> 2 ^ 1024" by (rule power_increasing) simp_all
  with n have big: "\<not> (2::nat) ^ 1024 \<le> n" by (meson le_trans not_le)
  show ?thesis using big by (simp add: to_Number_def u)
qed

lemma signed_1: "signed 1 x = x"
  by (cases x) (simp_all add: signed_def)

lemma radix_digits_upper:
  "\<forall>d \<in> set ds. d < R \<Longrightarrow> R \<le> 36 \<Longrightarrow>
   radix_digits R (map (\<lambda>d. upper_char (digit_char d)) ds) = ds"
  by (induction ds) (simp_all add: digit_value_upper)

lemma toUpperCase_digits:
  "toUpperCase (digits b n) = map (\<lambda>d. upper_char (digit_char d)) (digit_values b n)"
  by (simp add: toUpperCase_def digits_def)

lemma set_toUpperCase_digits:
  assumes "2 \<le> b" and "b \<le> 36"
  shows "set (toUpperCase (digits b n)) \<subseteq> set code_alphabet"
proof
  fix c assume "c \<in> set (toUpperCase (digits b n))"
  then obtain d where d: "d \<in> set (digit_values b n)" and c: "c = upper_char (digit_char d)"
    by (auto simp: toUpperCase_digits)
  from d assms have "d < 36" using digit_values_bound [OF assms(1), of n] by auto
  then show "c \<in> set code_alphabet"
    by (simp add: c upper_digit_char length_code_alphabet)
qed

lemma parseInt_plain:
  assumes "s = [] \<or> (\<not> is_space (hd s) \<and> hd s \<noteq> CHR ''-'' \<and> hd s \<noteq> CHR ''+'')"
    and "2 \<le> R" and "R \<le> 36" and "R \<noteq> 16 \<or> \<not> has_hex_prefix s"
  shows "parseInt s R =
           (if radix_digits R s = [] then NaN else to_Number (radix_value R (radix_digits R s)))"
proof (cases s)
  case Nil
  with assms(2,3) show ?thesis
    by (simp add: parseInt_def strip_sign_def has_hex_prefix_def)
next
  case (Cons c cs)
  with assms(1) have c: "\<not> is_space c" "c \<noteq> CHR ''-''" "c \<noteq> CHR ''+''" by auto
  have sg: "strip_sign (dropWhile is_space s) = (1, s)"
    using c by (simp add: Cons strip_sign_def)
  show ?thesis
    using assms(2,3,4) by (auto simp add: parseInt_def sg Let_def signed_1)
qed

lemma radix_value_foldl:
  "foldl (\<lambda>acc d. acc * R + d) a ds = a * R ^ length ds + radix_value R ds"
proof (induction ds arbitrary: a)
  case Nil
  then show ?case by (simp add: radix_value_def)
next
  case (Cons d ds)
  have "foldl (\<lambda>acc d. acc * R + d) a (d # ds) = (a * R + d) * R ^ length ds + radix_value R ds"
    by (simp add: Cons.IH)
  moreover have "radix_value R (d # ds) = d * R ^ length ds + radix_value R ds"
    by (simp add: radix_value_def Cons.IH [of d])
  ultimately show ?case by (simp add: algebra_simps)
qed

lemma radix_value_Cons: "radix_value R (d # ds) = d * R ^ length ds + radix_value R ds"
  using radix_value_foldl [of R d ds] by (simp add: radix_value_def)

lemma radix_value_hex: "radix_value 16 (map hex_digit_value s) = hex_value s"
proof (induction s)
  case Nil
  then show ?case by (simp add: radix_value_def)
next
  case (Cons c cs)
  then show ?case by (simp add: radix_value_Cons)
qed

lemma hex_digit_value_lt: "hex_digit_value c < 16"
proof (cases "position c ''0123456789abcdef''")
  case (Some d)
  then have "d < 16" using position_Some [OF Some] by simp
  with Some show ?thesis by (simp add: hex_digit_value_def)
next
  case None
  show ?thesis
  proof (cases "position c ''ABCDEF''")
    case (Some d)
    then have "d < 6" using position_Some [OF Some] by simp
    with None Some show ?thesis by (simp add: hex_digit_value_def)
  next
    case None2: None
    with None show ?thesis by (simp add: hex_digit_value_def)
  qed
qed

lemma hex_value_lt: "hex_value s < 16 ^ length s"
proof (induction s)
  case Nil
  then show ?case by simp
next
  case (Cons c cs)
  define P :: nat where "P = 16 ^ length cs"
  have "hex_digit_value c \<le> 15" using hex_digit_value_lt [of c] by simp
  then have a: "hex_digit_value c * P \<le> 15 * P" by (rule mult_le_mono1)
  have b: "hex_value cs < P" using Cons by (simp add: P_def)
  have c: "hex_value (c # cs) = hex_digit_value c * P + hex_value cs" by (simp add: P_def)
  have d: "(16::nat) ^ length (c # cs) = 16 * P" by (simp add: P_def)
  from a b show ?case unfolding c d by linarith
qed

lemma digit_below_16_is_hex:
  assumes "digit_value c = Some d" and "d < 16"
  shows "c \<in> set hex_chars"
proof (cases "position c lower36")
  case (Some i)
  with assms have i: "i < 16" by (simp add: digit_value_def)
  from position_Some [OF Some] have "lower36 ! i = c" "i < length lower36" by simp_all
  with i have "c \<in> set (take 16 lower36)" using nth_in_take by blast
  then show ?thesis by (auto simp: lower36_def hex_chars_def)
next
  case None
  with assms obtain i where p: "position c upper_letters = Some i" and d: "d = i + 10"
    by (auto simp: digit_value_def)
  from d assms(2) have i: "i < 6" by simp
  from position_Some [OF p] have "upper_letters ! i = c" "i < length upper_letters" by simp_all
  with i have "c \<in> set (take 6 upper_letters)" using nth_in_take by blast
  then show ?thesis by (auto simp: upper_letters_def hex_chars_def)
qed

lemma radix_digits_16:
  "radix_digits 16 s = map hex_digit_value (takeWhile (\<lambda>c. c \<in> set hex_chars) s)"
proof (induction s)
  case Nil
  then show ?case by simp
next
  case (Cons c cs)
  show ?case
  proof (cases "c \<in> set hex_chars")
    case True
    then have "digit_value c = Some (hex_digit_value c)" "hex_digit_value c < 16"
      using hex_chars_digit by blast+
    with True Cons show ?thesis by simp
  next
    case False
    then have "radix_digits 16 (c # cs) = []"
      using digit_below_16_is_hex [of c] by (cases "digit_value c") auto
    with False show ?thesis by simp
  qed
qed

lemma parseInt_16:
  assumes "CHR ''-'' \<notin> set s"
  shows "parseInt s 16 = (if hex_run s = [] then NaN else to_Number (hex_value (hex_run s)))"
proof -
  define t1 where "t1 = dropWhile is_space s"
  have "set t1 \<subseteq> set s" unfolding t1_def by (rule set_dropWhileD [THEN subsetI])
  with assms have nm: "CHR ''-'' \<notin> set t1" by auto
  have sg: "strip_sign t1 = (1, strip_plus t1)"
    using nm by (cases t1) (auto simp: strip_sign_def strip_plus_def)
  have run: "hex_run s = takeWhile (\<lambda>c. c \<in> set hex_chars) (strip_0x (strip_plus t1))"
    by (simp add: hex_run_def t1_def)
  have "parseInt s 16 =
          (if radix_digits 16 (strip_0x (strip_plus t1)) = [] then NaN
           else to_Number (radix_value 16 (radix_digits 16 (strip_0x (strip_plus t1)))))"
    using sg by (simp add: parseInt_def t1_def [symmetric] Let_def has_hex_prefix_def
        strip_0x_def signed_1)
  then show ?thesis
    by (simp add: radix_digits_16 radix_value_hex run)
qed

lemma length_hex_run: "length (hex_run s) \<le> length s"
proof -
  have 1: "length (dropWhile is_space s) \<le> length s" by (rule length_dropWhile_le)
  have 2: "length (strip_plus t) \<le> length t" for t
    by (cases t) (simp_all add: strip_plus_def)
  have 3: "length (strip_0x t) \<le> length t" for t by (simp add: strip_0x_def)
  have 4: "length (takeWhile (\<lambda>c. c \<in> set hex_chars) t) \<le> length t" for t
    by (rule length_takeWhile_le)
  have "length (hex_run s) \<le> length (strip_0x (strip_plus (dropWhile is_space s)))"
    unfolding hex_run_def by (rule 4)
  also have "\<dots> \<le> length (strip_plus (dropWhile is_space s))" by (rule 3)
  also have "\<dots> \<le> length (dropWhile is_space s)" by (rule 2)
  also note 1
  finally show ?thesis .
qed

lemma hex_run_all_hex:
  assumes "set s \<subseteq> set hex_chars"
  shows "hex_run s = s"
proof (cases s)
  case Nil
  then show ?thesis by (simp add: hex_run_def strip_plus_def strip_0x_def)
next
  case (Cons c cs)
  with assms have c: "c \<in> set hex_chars" by simp
  then have plain: "\<not> is_space c" "c \<noteq> CHR ''+''" using hex_chars_digit by blast+
  have 1: "dropWhile is_space s = s" using plain by (simp add: Cons)
  have 2: "strip_plus s = s" using plain by (simp add: Cons strip_plus_def)
  have nox: "take 2 s \<noteq> ''0x'' \<and> take 2 s \<noteq> ''0X''"
  proof (cases cs)
    case Nil
    then show ?thesis by (simp add: Cons)
  next
    case (Cons c' cs')
    with assms \<open>s = c # cs\<close> have "c' \<in> set hex_chars" by simp
    then have "c' \<noteq> CHR ''x'' \<and> c' \<noteq> CHR ''X''" using hex_chars_digit by blast
    then show ?thesis by (simp add: \<open>s = c # cs\<close> Cons)
  qed
  then have 3: "strip_0x s = s" by (simp add: strip_0x_def)
  have 4: "takeWhile (\<lambda>c. c \<in> set hex_chars) s = s"
    using assms by (simp add: takeWhile_eq_all_conv subset_iff)
  show ?thesis by (simp add: hex_run_def 1 2 3 4)
qed

lemma parseInt_base36:
  assumes "n < 2 ^ 53"
  shows "parseInt (toUpperCase (digits 36 n)) 36 = Num (int n)"
proof -
  let ?s = "toUpperCase (digits 36 n)"
  have ne: "digit_values 36 n \<noteq> []" by (simp add: digit_values_nonempty)
  have bound: "\<forall>d \<in> set (digit_values 36 n). d < 36" by (simp add: digit_values_bound)
  have rd: "radix_digits 36 ?s = digit_values 36 n"
    by (simp add: toUpperCase_digits radix_digits_upper bound)
  have sub: "set ?s \<subseteq> set code_alphabet" by (simp add: set_toUpperCase_digits)
  have sne: "?s \<noteq> []" using ne by (simp add: toUpperCase_digits)
  then have "hd ?s \<in> set code_alphabet" using sub by auto
  then have "\<not> is_space (hd ?s) \<and> hd ?s \<noteq> CHR ''-'' \<and> hd ?s \<noteq> CHR ''+''"
    using code_alphabet_plain by blast
  then have "parseInt ?s 36 =
      (if radix_digits 36 ?s = [] then NaN else to_Number (radix_value 36 (radix_digits 36 ?s)))"
    by (intro parseInt_plain) simp_all
  then show ?thesis using ne assms by (simp add: rd radix_value_digit_values to_Number_exact)
qed

text \<open>
  C9 (as amended). For every identifier and year, \<open>generateOrderCode\<close> returns the two
  least-significant decimal digits of the year, a hyphen and a segment over \<open>0-9A-Z\<close>.
  The segment is read from the last 8 characters of the identifier without its hyphens
  (all of them when there are fewer): when they begin, after optional white space, a plus
  sign and a \<open>0x\<close> prefix, with hexadecimal digits, it is the upper-cased base-36 rendering
  of the value of the longest run of such digits, and reading it back in base 36 gives
  that value; when they do not, no integer is parsed and the segment is \<open>NAN\<close>. When the
  8 characters are all hexadecimal digits, as for a UUID, the run is all of them. The
  result is a function of the identifier and the year.
\<close>

theorem generateOrderCode_format:
  "let stripped = filter (\<lambda>c. c \<noteq> CHR ''-'') oid;
       tail = drop (length stripped - 8) stripped;
       run = hex_run tail;
       base36 = (if run = [] then ''NAN'' else toUpperCase (digits 36 (hex_value run)))
   in generateOrderCode fullYear (Some oid) = Inr (year_digits fullYear @ ''-'' @ base36)
      \<and> set base36 \<subseteq> set code_alphabet
      \<and> (run \<noteq> [] \<longrightarrow> parseInt base36 36 = Num (int (hex_value run)))
      \<and> (set tail \<subseteq> set hex_chars \<longrightarrow> run = tail)"
proof -
  let ?stripped = "filter (\<lambda>c. c \<noteq> CHR ''-'') oid"
  let ?tail = "drop (length ?stripped - 8) ?stripped"
  let ?run = "hex_run ?tail"
  let ?b = "if ?run = [] then ''NAN'' else toUpperCase (digits 36 (hex_value ?run))"
  have "CHR ''-'' \<notin> set ?stripped" by simp
  then have nm: "CHR ''-'' \<notin> set ?tail" by (meson in_set_dropD)
  have "length ?run \<le> length ?tail" by (rule length_hex_run)
  then have len: "length ?run \<le> 8" by simp
  have "hex_value ?run < 16 ^ length ?run" by (rule hex_value_lt)
  also have "(16::nat) ^ length ?run \<le> 16 ^ 8" using len by (intro power_increasing) simp_all
  finally have small: "hex_value ?run < 2 ^ 53" by simp
  have p: "parseInt ?tail 16 = (if ?run = [] then NaN else Num (int (hex_value ?run)))"
    using parseInt_16 [OF nm] small by (simp add: to_Number_exact)
  have seg: "toUpperCase (Number_toString (parseInt ?tail 16) 36) = ?b"
    by (simp add: p Number_toString_def toUpperCase_def upper_char_def lower_letters_def
        upper_letters_def)
  have code: "generateOrderCode fullYear (Some oid) = Inr (year_digits fullYear @ ''-'' @ ?b)"
    using seg by (simp add: generateOrderCode_def Let_def year_part slice_last_def replace_hyphens_def)
  have alphabet: "set ?b \<subseteq> set code_alphabet"
  proof (cases "?run = []")
    case True
    then show ?thesis by (simp add: code_alphabet_def)
  next
    case False
    then show ?thesis using set_toUpperCase_digits [of 36 "hex_value ?run"] by simp
  qed
  have readback: "?run \<noteq> [] \<longrightarrow> parseInt ?b 36 = Num (int (hex_value ?run))"
    using small by (simp add: parseInt_base36)
  have allhex: "set ?tail \<subseteq> set hex_chars \<longrightarrow> ?run = ?tail"
    using hex_run_all_hex by blast
  show ?thesis unfolding Let_def by (intro conjI code alphabet readback allhex)
qed

text \<open>
  A UUID, in 2025: its last 8 hexadecimal digits \<open>14174000\<close> are \<open>5KOJCW\<close> in base 36.
\<close>

theorem generateOrderCode_format_witness:
  "generateOrderCode 2025 (Some ''123e4567-e89b-12d3-a456-426614174000'') = Inr ''25-5KOJCW''"
  using generateOrderCode_format [where oid = "''123e4567-e89b-12d3-a456-426614174000''"
      and fullYear = 2025]
  by (simp add: Let_def hex_run_def strip_plus_def strip_0x_def is_space_def hex_chars_def
      year_digits_def digit_char_def
      lower36_def hex_digit_value_def digits_small digits_step toUpperCase_def upper_char_def
      lower_letters_def upper_letters_def)

text \<open>
  C9 as stated, for every identifier, fails: the identifier \<open>ORDER001\<close> does not begin with
  a hexadecimal digit, \<open>parseInt\<close> reads no integer from it, and the segment is the text
  \<open>NAN\<close>, not the rendering of an integer parsed from the identifier.
\<close>

theorem generateOrderCode_format_counterexample:
  "generateOrderCode 2025 (Some ''ORDER001'') = Inr ''25-NAN''
   \<and> parseInt ''ORDER001'' 16 = NaN"
  by (simp add: generateOrderCode_def Let_def year_part year_digits_def digit_char_def
      lower36_def replace_hyphens_def slice_last_def parseInt_def strip_sign_def
      has_hex_prefix_def is_space_def digit_value_def upper_letters_def Number_toString_def
      toUpperCase_def upper_char_def lower_letters_def padStart_def digits_small digits_step)

text \<open>
  Only the last 8 characters count, and hyphens are removed before they are taken: the
  identifier \<open>100000001\<close> gives the code of 1, and \<open>ab-cd\<close> gives that of \<open>abcd\<close>.
\<close>

lemma generateOrderCode_last_8:
  "generateOrderCode 2025 (Some ''100000001'') = Inr ''25-1''
   \<and> generateOrderCode 2025 (Some ''ab-cd'') = Inr ''25-XXP''"
  by (simp add: generateOrderCode_def Let_def year_part year_digits_def digit_char_def
      lower36_def replace_hyphens_def slice_last_def parseInt_def strip_sign_def
      has_hex_prefix_def is_space_def digit_value_def upper_letters_def Number_toString_def
      toUpperCase_def upper_char_def lower_letters_def radix_value_def to_Number_exact signed_1
      padStart_def digits_small digits_step)

text \<open>
  C3. Called without an identifier, as \<open>importOrders\<close> calls it, the generator has no value
  to fall back on: \<open>orderId\<close> is \<open>undefined\<close> and \<open>orderId.replace\<close> raises a \<open>TypeError\<close>,
  whatever the year.
\<close>

theorem generateOrderCode_without_identifier:
  "generateOrderCode fullYear None = Inl TypeError"
  by (simp add: generateOrderCode_def Let_def)

section \<open>Properties of the stock adjustments\<close>


lemma set_on_hand_nonneg:
  assumes "list_all (\<lambda>m. m_id m = x \<longrightarrow> 0 \<le> on_hand m) ms" and "mid = x \<longrightarrow> 0 \<le> q"
  shows "list_all (\<lambda>m. m_id m = x \<longrightarrow> 0 \<le> on_hand m) (set_on_hand mid q ms)"
  using assms by (induction ms) (auto simp: set_on_hand_def)

lemma select_materials_subset: "set (select_materials rows) \<subseteq> set rows"
  by (auto simp: select_materials_def)

lemma select_materials_nonneg:
  assumes "list_all P rows"
  shows "list_all P (select_materials rows)"
  using assms select_materials_subset [of rows] by (auto simp: list_all_iff)

lemma updateQuantity_nonneg:
  assumes "stock_nonneg x s" and "mid = x \<longrightarrow> 0 \<le> q"
  shows "stock_nonneg x (updateQuantity backend mid q s)"
  using assms
  by (simp add: stock_nonneg_def updateQuantity_def Let_def set_on_hand_nonneg
      select_materials_nonneg)

lemma decrement_target_nonneg: "0 \<le> decrement_target h"
  by (simp add: decrement_target_def)

lemma do_click_nonneg:
  assumes "stock_nonneg x s"
  shows "stock_nonneg x (do_click backend c s)"
proof (cases c)
  case (Minus i)
  then show ?thesis
    using assms by (simp add: Let_def updateQuantity_nonneg decrement_target_nonneg)
next
  case (Plus i)
  show ?thesis
  proof (cases "i < length (materials s)")
    case True
    then have "materials s ! i \<in> set (materials s)" by simp
    with assms have "m_id (materials s ! i) = x \<longrightarrow> 0 \<le> on_hand (materials s ! i) + 1"
      by (auto simp: stock_nonneg_def list_all_iff)
    then show ?thesis
      using assms True Plus by (simp add: Let_def updateQuantity_nonneg)
  next
    case False
    then show ?thesis using assms Plus by simp
  qed
qed

lemma do_clicks_nonneg:
  "stock_nonneg x s \<Longrightarrow> stock_nonneg x (do_clicks cs s)"
proof (induction cs arbitrary: s)
  case Nil
  then show ?case by simp
next
  case (Cons a cs)
  obtain c backend where a: "a = (c, backend)" by (cases a)
  from Cons.prems have "stock_nonneg x (do_click backend c s)" by (rule do_click_nonneg)
  then show ?case using Cons.IH a by simp
qed

text \<open>
  C5. If every displayed and stored row of a material has a non-negative quantity, this
  remains so after any sequence of clicks on the plus and minus buttons, whatever the
  backend answers to the writes and reloads. The quantity that the minus button asks for
  is clamped at 0: it is never negative, and it is 0 for a quantity of 1 or less.
\<close>

theorem stock_never_negative:
  assumes "stock_nonneg x s"
  shows "stock_nonneg x (do_clicks cs s)
         \<and> 0 \<le> decrement_target h
         \<and> (h \<le> 1 \<longrightarrow> decrement_target h = 0)"
  using assms by (simp add: do_clicks_nonneg decrement_target_def)

text \<open>
  One material with a quantity of 1: a decrement that is written, a click on the then
  disabled minus button, and an increment whose write fails and is reverted by the reload.
\<close>

theorem stock_never_negative_witness:
  "stock_nonneg ''m1''
     (do_clicks [(Minus 0, \<lparr>write_ok = True, reload_ok = True\<rparr>),
                 (Minus 0, \<lparr>write_ok = True, reload_ok = True\<rparr>),
                 (Plus 0, \<lparr>write_ok = False, reload_ok = True\<rparr>)]
        \<lparr>materials = [\<lparr>m_id = ''m1'', on_hand = 1, reorder_point = 0, m_archived = False, m_created_at = 0\<rparr>],
         stored = [\<lparr>m_id = ''m1'', on_hand = 1, reorder_point = 0, m_archived = False, m_created_at = 0\<rparr>]\<rparr>)
   \<and> do_clicks [(Minus 0, \<lparr>write_ok = True, reload_ok = True\<rparr>),
                 (Minus 0, \<lparr>write_ok = True, reload_ok = True\<rparr>),
                 (Plus 0, \<lparr>write_ok = False, reload_ok = True\<rparr>)]
        \<lparr>materials = [\<lparr>m_id = ''m1'', on_hand = 1, reorder_point = 0, m_archived = False, m_created_at = 0\<rparr>],
         stored = [\<lparr>m_id = ''m1'', on_hand = 1, reorder_point = 0, m_archived = False, m_created_at = 0\<rparr>]\<rparr>
     = \<lparr>materials = [\<lparr>m_id = ''m1'', on_hand = 0, reorder_point = 0, m_archived = False, m_created_at = 0\<rparr>],
         stored = [\<lparr>m_id = ''m1'', on_hand = 0, reorder_point = 0, m_archived = False, m_created_at = 0\<rparr>]\<rparr>
   \<and> decrement_target 0 = 0"
  using stock_never_negative [of "''m1''"
      "\<lparr>materials = [\<lparr>m_id = ''m1'', on_hand = 1, reorder_point = 0, m_archived = False, m_created_at = 0\<rparr>],
        stored = [\<lparr>m_id = ''m1'', on_hand = 1, reorder_point = 0, m_archived = False, m_created_at = 0\<rparr>]\<rparr>"
      "[(Minus 0, \<lparr>write_ok = True, reload_ok = True\<rparr>),
        (Minus 0, \<lparr>write_ok = True, reload_ok = True\<rparr>),
        (Plus 0, \<lparr>write_ok = False, reload_ok = True\<rparr>)]" 0]
  by (simp add: stock_nonneg_def updateQuantity_def set_on_hand_def select_materials_def
      decrement_target_def Let_def)

section \<open>Properties of the order status update\<close>

lemma order_page_update_exact:
  "order_page_updateOrderStatus True st c t (Some ord, rows)
   = ((Some (apply_patch (make_updateData st c t) ord),
       db_update_order (o_id ord) (make_updateData st c t) rows), Some ToastSuccess)"
  by (simp add: order_page_updateOrderStatus_def Let_def)

lemma order_page_update_failure:
  "order_page_updateOrderStatus False st c t (Some ord, rows) = ((Some ord, rows), Some ToastError)"
  by (simp add: order_page_updateOrderStatus_def Let_def)

text \<open>
  C4. A status update is issued from the order page. When the write succeeds, the
  displayed order is the previous one with the written status, and with the written
  carrier and tracking number where the request carries them; every other field is as
  before, and the rows of the table with the identifier of the order are changed in the
  same way, so that a stored row that was equal to the displayed order is equal to it
  afterwards. When the write fails, the displayed order and the table are unchanged and
  an error is shown.
\<close>

theorem status_update_atomic:
  "let patched = (\<lambda>r. r\<lparr>status := st,
                         carrier := (case c of None \<Rightarrow> carrier r | Some v \<Rightarrow> Some v),
                         tracking := (case t of None \<Rightarrow> tracking r | Some v \<Rightarrow> Some v)\<rparr>);
       written = map (\<lambda>r. if o_id r = o_id ord then patched r else r) rows
   in order_page_updateOrderStatus True st c t (Some ord, rows)
        = ((Some (patched ord), written), Some ToastSuccess)
      \<and> order_page_updateOrderStatus False st c t (Some ord, rows)
        = ((Some ord, rows), Some ToastError)
      \<and> (ord \<in> set rows \<longrightarrow> patched ord \<in> set written)"
  by (auto simp add: order_page_update_exact order_page_update_failure Let_def apply_patch_def
      make_updateData_def db_update_order_def)

text \<open>
  The example of the specification: a pending order is marked as shipped with carrier
  \<open>UPS\<close> and tracking number \<open>1Z999\<close>; a failed write leaves it pending.
\<close>

theorem status_update_atomic_witness:
  "order_page_updateOrderStatus True ''SHIPPED'' (Some ''UPS'') (Some ''1Z999'')
     (Some \<lparr>o_id = ''o1'', o_code = Some ''25-9P7C'', o_channel = ''MANUAL'', o_external_id = None,
            o_customer_name = Some ''Ann'', status = ''PENDING'', carrier = None,
            tracking = None\<rparr>,
      [\<lparr>o_id = ''o1'', o_code = Some ''25-9P7C'', o_channel = ''MANUAL'', o_external_id = None,
        o_customer_name = Some ''Ann'', status = ''PENDING'', carrier = None,
        tracking = None\<rparr>])
   = ((Some \<lparr>o_id = ''o1'', o_code = Some ''25-9P7C'', o_channel = ''MANUAL'', o_external_id = None,
             o_customer_name = Some ''Ann'', status = ''SHIPPED'', carrier = Some ''UPS'',
             tracking = Some ''1Z999''\<rparr>,
       [\<lparr>o_id = ''o1'', o_code = Some ''25-9P7C'', o_channel = ''MANUAL'', o_external_id = None,
         o_customer_name = Some ''Ann'', status = ''SHIPPED'', carrier = Some ''UPS'',
         tracking = Some ''1Z999''\<rparr>]), Some ToastSuccess)
   \<and> order_page_updateOrderStatus False ''SHIPPED'' (Some ''UPS'') (Some ''1Z999'')
     (Some \<lparr>o_id = ''o1'', o_code = Some ''25-9P7C'', o_channel = ''MANUAL'', o_external_id = None,
            o_customer_name = Some ''Ann'', status = ''PENDING'', carrier = None,
            tracking = None\<rparr>,
      [\<lparr>o_id = ''o1'', o_code = Some ''25-9P7C'', o_channel = ''MANUAL'', o_external_id = None,
        o_customer_name = Some ''Ann'', status = ''PENDING'', carrier = None,
        tracking = None\<rparr>])
   = ((Some \<lparr>o_id = ''o1'', o_code = Some ''25-9P7C'', o_channel = ''MANUAL'', o_external_id = None,
             o_customer_name = Some ''Ann'', status = ''PENDING'', carrier = None,
             tracking = None\<rparr>,
       [\<lparr>o_id = ''o1'', o_code = Some ''25-9P7C'', o_channel = ''MANUAL'', o_external_id = None,
         o_customer_name = Some ''Ann'', status = ''PENDING'', carrier = None,
         tracking = None\<rparr>]), Some ToastError)"
  using status_update_atomic [where st = "''SHIPPED''" and c = "Some ''UPS''" and t = "Some ''1Z999''"
      and ord = "\<lparr>o_id = ''o1'', o_code = Some ''25-9P7C'', o_channel = ''MANUAL'',
                   o_external_id = None, o_customer_name = Some ''Ann'', status = ''PENDING'',
                   carrier = None, tracking = None\<rparr>"
      and rows = "[\<lparr>o_id = ''o1'', o_code = Some ''25-9P7C'', o_channel = ''MANUAL'',
                    o_external_id = None, o_customer_name = Some ''Ann'', status = ''PENDING'',
                    carrier = None, tracking = None\<rparr>]"]
  by (simp add: Let_def)

text \<open>
  The fulfillment page defines a function of the same name, which nothing in the source
  calls. A failed write changes nothing there either, and after a successful write its
  displayed list is the patched one when neither the carrier nor the tracking number is
  the empty string. For an empty string its \<open>carrier || order.carrier\<close> keeps the previous
  value on display while the empty string is written.
\<close>

lemma fulfillment_update_failure:
  "fulfillment_updateOrderStatus False orderId st c t (shown, rows) = ((shown, rows), ToastError)"
  by (simp add: fulfillment_updateOrderStatus_def Let_def)

lemma or_else_patch:
  assumes "c \<noteq> Some []"
  shows "or_else c old = (case c of None \<Rightarrow> old | Some v \<Rightarrow> Some v)"
  using assms by (cases c) (simp_all add: or_else_def)

lemma fulfillment_update_exact:
  assumes "c \<noteq> Some []" and "t \<noteq> Some []"
  shows "fulfillment_updateOrderStatus True orderId st c t (shown, rows)
         = ((db_update_order orderId (make_updateData st c t) shown,
             db_update_order orderId (make_updateData st c t) rows), ToastSuccess)"
  using assms
  by (simp add: fulfillment_updateOrderStatus_def db_update_order_def apply_patch_def
      make_updateData_def or_else_patch Let_def)

lemma fulfillment_update_empty_string:
  "fulfillment_updateOrderStatus True ''o1'' ''SHIPPED'' (Some []) (Some [])
     ([\<lparr>o_id = ''o1'', o_code = Some ''25-9P7C'', o_channel = ''MANUAL'', o_external_id = None,
        o_customer_name = Some ''Ann'', status = ''IN_PROGRESS'', carrier = Some ''UPS'',
        tracking = Some ''1Z999''\<rparr>],
      [\<lparr>o_id = ''o1'', o_code = Some ''25-9P7C'', o_channel = ''MANUAL'', o_external_id = None,
        o_customer_name = Some ''Ann'', status = ''IN_PROGRESS'', carrier = Some ''UPS'',
        tracking = Some ''1Z999''\<rparr>])
   = (([\<lparr>o_id = ''o1'', o_code = Some ''25-9P7C'', o_channel = ''MANUAL'', o_external_id = None,
         o_customer_name = Some ''Ann'', status = ''SHIPPED'', carrier = Some ''UPS'',
         tracking = Some ''1Z999''\<rparr>],
       [\<lparr>o_id = ''o1'', o_code = Some ''25-9P7C'', o_channel = ''MANUAL'', o_external_id = None,
         o_customer_name = Some ''Ann'', status = ''SHIPPED'', carrier = Some [],
         tracking = Some []\<rparr>]), ToastSuccess)"
  by (simp add: fulfillment_updateOrderStatus_def db_update_order_def apply_patch_def
      make_updateData_def or_else_def Let_def)

section \<open>Properties of the grouping of CSV rows\<close>










lemma same_pair_same_key:
  "row_channel r = row_channel r' \<Longrightarrow> row_external_id r = row_external_id r'
   \<Longrightarrow> orderKey r = orderKey r'"
  by (simp add: orderKey_def)




text \<open>
  The quantity of an imported line is not checked for its sign, as the quantity of a line
  of a manual order is (\<open>line.qty > 0\<close> in the dialog of the fulfillment page): a field
  \<open>-3\<close> is imported as the quantity \<open>-3\<close>. A no-break space before the digits is skipped.
\<close>

lemma negative_quantity_imported:
  "line_of_row \<lparr>row_external_id = ''ORDER1'', row_channel = ''SHOPIFY'', row_customer_name = ''Bob'',
                row_sku = ''A'', row_qty = ''-3''\<rparr> = \<lparr>l_sku = ''A'', l_qty = Num (- 3)\<rparr>
   \<and> parseInt [CHR 0xA0, CHR ''5''] 0 = Num 5"
  by (simp add: line_of_row_def or_default_def parseInt_def strip_sign_def has_hex_prefix_def
      digit_value_def lower36_def radix_value_def is_space_def Let_def to_Number_exact signed_def)

text \<open>
  C7. The key of a group is the text \<open>channel-external_id\<close>, and a hyphen inside a channel
  or an external identifier makes two different pairs share a key: the rows of channel
  \<open>SHOP-US\<close>, identifier \<open>1001\<close> and of channel \<open>SHOP\<close>, identifier \<open>US-1001\<close> are placed in
  one group, under the channel and the identifier of the first.
\<close>

theorem grouping_key_collision:
  "groupRows
     [\<lparr>row_external_id = ''1001'', row_channel = ''SHOP-US'', row_customer_name = ''Ann'',
       row_sku = ''S1'', row_qty = ''1''\<rparr>,
      \<lparr>row_external_id = ''US-1001'', row_channel = ''SHOP'', row_customer_name = ''Bob'',
       row_sku = ''S2'', row_qty = ''1''\<rparr>]
   = [(''SHOP-US-1001'',
       \<lparr>g_channel = ''SHOP-US'', g_external_id = ''1001'', g_customer_name = ''Ann'',
        g_lines = [\<lparr>l_sku = ''S1'', l_qty = Num 1\<rparr>, \<lparr>l_sku = ''S2'', l_qty = Num 1\<rparr>]\<rparr>)]"
  by (simp add: groupRows_def group_row_def valid_row_def orderKey_def push_line_def
      line_of_row_def or_default_def parseInt_def strip_sign_def has_hex_prefix_def
      digit_value_def lower36_def radix_value_def is_space_def Let_def to_Number_exact signed_1)

section \<open>Properties of the import\<close>


lemma filter_key_unique:
  "distinct (map f xs) \<Longrightarrow> x \<in> set xs \<Longrightarrow> filter (\<lambda>y. f y = f x) xs = [x]"
proof (induction xs)
  case Nil
  then show ?case by simp
next
  case (Cons a xs)
  show ?case
  proof (cases "a = x")
    case True
    with Cons.prems have "f x \<notin> f ` set xs" by simp
    then have "\<forall>y \<in> set xs. f y \<noteq> f x" by (metis imageI)
    then have "filter (\<lambda>y. f y = f x) xs = []" by (simp add: filter_empty_conv)
    with True show ?thesis by simp
  next
    case False
    with Cons.prems have "x \<in> set xs" "f a \<noteq> f x" by auto
    with Cons show ?thesis by simp
  qed
qed

lemma find_existing_unique:
  assumes "unique_channel_external_id (orders db)"
    and "ord \<in> set (orders db)" and "matches_order orderData ord"
  shows "find_existing db orderData = Some ord"
proof -
  let ?key = "\<lambda>r. (o_channel r, o_external_id r)"
  let ?ext = "filter (\<lambda>r. o_external_id r \<noteq> None) (orders db)"
  have m: "matches_order orderData r = (o_external_id r \<noteq> None \<and> ?key r = ?key ord)" for r
    using assms(3) by (auto simp: matches_order_def)
  have "matches_order orderData = (\<lambda>r. o_external_id r \<noteq> None \<and> ?key r = ?key ord)"
    by (rule ext) (rule m)
  then have split: "filter (matches_order orderData) (orders db) = filter (\<lambda>r. ?key r = ?key ord) ?ext"
    by (simp only: filter_filter)
  have mem: "ord \<in> set ?ext" using assms(2,3) by (simp add: matches_order_def)
  have dist: "distinct (map ?key ?ext)"
    using assms(1) by (simp only: unique_channel_external_id_def)
  have "filter (\<lambda>r. ?key r = ?key ord) ?ext = [ord]"
    using dist mem by (rule filter_key_unique)
  with split have "filter (matches_order orderData) (orders db) = [ord]" by (simp only:)
  then show ?thesis by (simp add: find_existing_def)
qed

lemma import_one_existing:
  assumes "find_existing db orderData = Some ord"
  shows "import_one orderCode backend orderData (res, db)
         = (res\<lparr>existingOrders := existingOrders res @ [existing_entry db orderData]\<rparr>, db)"
  using assms by (simp add: import_one_def try_import_def existing_entry_def)

lemma fold_import_existing:
  assumes "\<forall>g \<in> set ordersData. \<exists>ord. find_existing db g = Some ord"
  shows "fold (import_one orderCode backend) ordersData (res, db)
         = (res\<lparr>existingOrders := existingOrders res @ map (existing_entry db) ordersData\<rparr>, db)"
  using assms
proof (induction ordersData arbitrary: res)
  case Nil
  then show ?case by simp
next
  case (Cons g gs)
  from Cons.prems obtain ord where "find_existing db g = Some ord" by auto
  then have "import_one orderCode backend g (res, db)
      = (res\<lparr>existingOrders := existingOrders res @ [existing_entry db g]\<rparr>, db)"
    by (rule import_one_existing)
  then show ?case using Cons by simp
qed

lemma import_one_without_code:
  "\<exists>res'. import_one (Inl e) backend orderData (res, db) = (res', db)
          \<and> newOrders res' = newOrders res"
  by (simp add: import_one_def try_import_def Let_def split: option.splits)

lemma fold_import_without_code:
  "\<exists>res'. fold (import_one (Inl e) backend) ordersData (res, db) = (res', db)
          \<and> newOrders res' = newOrders res"
proof (induction ordersData arbitrary: res)
  case Nil
  then show ?case by simp
next
  case (Cons g gs)
  obtain res1 where 1: "import_one (Inl e) backend g (res, db) = (res1, db)"
    "newOrders res1 = newOrders res" using import_one_without_code by blast
  obtain res2 where 2: "fold (import_one (Inl e) backend) gs (res1, db) = (res2, db)"
    "newOrders res2 = newOrders res1" using Cons.IH by blast
  from 1 2 show ?case by simp
qed

lemma importOrders_creates_nothing:
  "newOrders (fst (importOrders fullYear backend db ordersData)) = []
   \<and> snd (importOrders fullYear backend db ordersData) = db"
proof -
  obtain res' where "fold (import_one (Inl TypeError) backend) ordersData
      (\<lparr>success = True, newOrders = [], existingOrders = [], errors = []\<rparr>, db) = (res', db)"
    and "newOrders res' = []"
    using fold_import_without_code [of TypeError backend ordersData
        "\<lparr>success = True, newOrders = [], existingOrders = [], errors = []\<rparr>" db] by auto
  then show ?thesis
    by (simp add: importOrders_def generateOrderCode_def Let_def)
qed

text \<open>
  A new order cannot be imported: for a group without stored order whose SKU is in the
  catalogue, the call that generates the code raises, the \<open>catch\<close> records the failure,
  and nothing is written.
\<close>

lemma importOrders_fails_on_new_order:
  "importOrders 2025 (\<lambda>g. \<lparr>order_insert_ok = True, lines_insert_ok = True, new_order_id = ''o1'', write_error = ''Error''\<rparr>)
     \<lparr>orders = [], order_lines = [],
      products = [\<lparr>p_id = ''p1'', p_sku = ''GT-RED-M'', bom = None, p_archived = False\<rparr>,
                  \<lparr>p_id = ''p2'', p_sku = ''GT-BLACK-L'', bom = None, p_archived = False\<rparr>]\<rparr>
     [\<lparr>g_channel = ''SHOPIFY'', g_external_id = ''ORDER001'', g_customer_name = ''John Doe'',
       g_lines = [\<lparr>l_sku = ''GT-RED-M'', l_qty = Num 2\<rparr>, \<lparr>l_sku = ''GT-BLACK-L'', l_qty = Num 1\<rparr>]\<rparr>]
   = (\<lparr>success = False, newOrders = [], existingOrders = [],
       errors = [''Failed to import order ORDER001: TypeError: Cannot read properties of undefined (reading '' @
                 [CHR 0x27] @ ''replace'' @ [CHR 0x27] @ '')'']\<rparr>,
      \<lparr>orders = [], order_lines = [],
       products = [\<lparr>p_id = ''p1'', p_sku = ''GT-RED-M'', bom = None, p_archived = False\<rparr>,
                   \<lparr>p_id = ''p2'', p_sku = ''GT-BLACK-L'', bom = None, p_archived = False\<rparr>]\<rparr>)"
  by (simp add: importOrders_def import_one_def try_import_def find_existing_def
      find_products_def generateOrderCode_def error_text_def Let_def)

text \<open>
  C6. Under the unique index on (channel, external identifier), an import whose groups all
  match a stored order records every group under \<open>existingOrders\<close>, with the code of the
  stored order, reports no new order and no error, and leaves the tables as they were: no
  order and no order line is created and no stored order is changed. This is so group by
  group, whatever the import has recorded so far and whatever the code generator returns.
  Importing the same file again therefore creates no order.
\<close>

theorem import_skips_existing:
  assumes "unique_channel_external_id (orders db)"
    and "\<forall>g \<in> set ordersData. \<exists>ord \<in> set (orders db). matches_order g ord"
  shows "importOrders fullYear backend db ordersData
         = (\<lparr>success = True, newOrders = [],
             existingOrders = map (existing_entry db) ordersData, errors = []\<rparr>, db)
         \<and> (\<forall>g \<in> set ordersData. \<forall>orderCode res.
               import_one orderCode backend g (res, db)
               = (res\<lparr>existingOrders := existingOrders res @ [existing_entry db g]\<rparr>, db))
         \<and> (\<forall>g \<in> set ordersData. \<forall>ord \<in> set (orders db).
               matches_order g ord \<longrightarrow> e_code (existing_entry db g) = o_code ord)"
proof -
  have ex: "\<forall>g \<in> set ordersData. \<exists>ord. find_existing db g = Some ord"
    using assms find_existing_unique by blast
  have whole: "importOrders fullYear backend db ordersData
         = (\<lparr>success = True, newOrders = [],
             existingOrders = map (existing_entry db) ordersData, errors = []\<rparr>, db)"
    by (simp add: importOrders_def fold_import_existing [OF ex])
  have step: "\<forall>g \<in> set ordersData. \<forall>orderCode res.
               import_one orderCode backend g (res, db)
               = (res\<lparr>existingOrders := existingOrders res @ [existing_entry db g]\<rparr>, db)"
    using ex import_one_existing by blast
  have code: "\<forall>g \<in> set ordersData. \<forall>ord \<in> set (orders db).
               matches_order g ord \<longrightarrow> e_code (existing_entry db g) = o_code ord"
    using assms(1) find_existing_unique by (fastforce simp: existing_entry_def)
  from whole step code show ?thesis by blast
qed

text \<open>
  The order \<open>ORDER001\<close> of channel \<open>SHOPIFY\<close> is stored under the code \<open>25-9P7C\<close>; importing
  its group again records it as existing and changes nothing.
\<close>

theorem import_skips_existing_witness:
  "importOrders 2025 (\<lambda>g. \<lparr>order_insert_ok = True, lines_insert_ok = True, new_order_id = ''o2'', write_error = ''Error''\<rparr>)
     \<lparr>orders = [\<lparr>o_id = ''o1'', o_code = Some ''25-9P7C'', o_channel = ''SHOPIFY'',
                  o_external_id = Some ''ORDER001'', o_customer_name = Some ''John Doe'',
                  status = ''PENDING'', carrier = None, tracking = None\<rparr>],
      order_lines = [\<lparr>ol_order_id = ''o1'', ol_product_id = ''p1'', ol_qty = Num 2\<rparr>],
      products = [\<lparr>p_id = ''p1'', p_sku = ''GT-RED-M'', bom = None, p_archived = False\<rparr>]\<rparr>
     [\<lparr>g_channel = ''SHOPIFY'', g_external_id = ''ORDER001'', g_customer_name = ''John Doe'',
       g_lines = [\<lparr>l_sku = ''GT-RED-M'', l_qty = Num 2\<rparr>]\<rparr>]
   = (\<lparr>success = True, newOrders = [],
       existingOrders = [\<lparr>e_code = Some ''25-9P7C'', e_external_id = ''ORDER001'', e_channel = ''SHOPIFY''\<rparr>],
       errors = []\<rparr>,
      \<lparr>orders = [\<lparr>o_id = ''o1'', o_code = Some ''25-9P7C'', o_channel = ''SHOPIFY'',
                  o_external_id = Some ''ORDER001'', o_customer_name = Some ''John Doe'',
                  status = ''PENDING'', carrier = None, tracking = None\<rparr>],
      order_lines = [\<lparr>ol_order_id = ''o1'', ol_product_id = ''p1'', ol_qty = Num 2\<rparr>],
      products = [\<lparr>p_id = ''p1'', p_sku = ''GT-RED-M'', bom = None, p_archived = False\<rparr>]\<rparr>)"
  using import_skips_existing [of
     "\<lparr>orders = [\<lparr>o_id = ''o1'', o_code = Some ''25-9P7C'', o_channel = ''SHOPIFY'',
                  o_external_id = Some ''ORDER001'', o_customer_name = Some ''John Doe'',
                  status = ''PENDING'', carrier = None, tracking = None\<rparr>],
      order_lines = [\<lparr>ol_order_id = ''o1'', ol_product_id = ''p1'', ol_qty = Num 2\<rparr>],
      products = [\<lparr>p_id = ''p1'', p_sku = ''GT-RED-M'', bom = None, p_archived = False\<rparr>]\<rparr>"
     "[\<lparr>g_channel = ''SHOPIFY'', g_external_id = ''ORDER001'', g_customer_name = ''John Doe'',
       g_lines = [\<lparr>l_sku = ''GT-RED-M'', l_qty = Num 2\<rparr>]\<rparr>]"
     2025 "\<lambda>g. \<lparr>order_insert_ok = True, lines_insert_ok = True, new_order_id = ''o2'', write_error = ''Error''\<rparr>"]
  by (simp add: unique_channel_external_id_def matches_order_def existing_entry_def find_existing_def)


end
